theory Spec2Isabelle
  imports Main "HOL-Library.Sublist"
begin

section \<open>JavaScript strings and numbers\<close>

text \<open>
  A string is the UTF-8 encoding of a well-formed JavaScript string, one \<open>char\<close> per
  byte. Searching, splitting and joining at ASCII separators act on the bytes as they
  act on the JavaScript string; \<open>js_length\<close> is \<open>.length\<close>, which counts UTF-16 code
  units. Numbers are the values the server handles: whole numbers (exact in a double
  below \<open>2^53\<close>) and \<open>NaN\<close>. A value that may be \<open>null\<close> or \<open>undefined\<close> is an
  \<open>option\<close>, \<open>None\<close> standing for both.
\<close>

definition code :: "char \<Rightarrow> nat" where
  "code c = of_char c"

text \<open>
  One code unit for every character of one to three bytes, two for a character of four
  bytes; continuation bytes (\<open>0x80\<close>-\<open>0xBF\<close>) count with their lead byte.
\<close>

definition js_length :: "string \<Rightarrow> nat" where
  "js_length s =
     length (filter (\<lambda>c. code c < 128 \<or> 192 \<le> code c) s)
     + length (filter (\<lambda>c. 240 \<le> code c) s)"

datatype number = NaN | Num int

text \<open>\<open>s.includes(d)\<close>: \<open>d\<close> occurs in \<open>s\<close> as a contiguous run.\<close>

fun str_includes :: "string \<Rightarrow> string \<Rightarrow> bool" where
  "str_includes [] d = (d = [])"
| "str_includes (c # cs) d = (prefix d (c # cs) \<or> str_includes cs d)"

text \<open>\<open>xs.find(p)\<close>: the first element satisfying \<open>p\<close>, or \<open>undefined\<close>.\<close>

fun find_first :: "('a \<Rightarrow> bool) \<Rightarrow> 'a list \<Rightarrow> 'a option" where
  "find_first p [] = None"
| "find_first p (x # xs) = (if p x then Some x else find_first p xs)"

text \<open>
  Splitting at every character satisfying \<open>is_sep\<close>; \<open>s.split(sep)\<close> for a
  one-character separator is the instance below. The result is never the empty list.
\<close>

fun split_where :: "(char \<Rightarrow> bool) \<Rightarrow> string \<Rightarrow> string list" where
  "split_where is_sep [] = [[]]"
| "split_where is_sep (c # cs) =
     (if is_sep c then [] # split_where is_sep cs
      else (case split_where is_sep cs of
              [] \<Rightarrow> [[c]]
            | w # ws \<Rightarrow> (c # w) # ws))"

definition split :: "char \<Rightarrow> string \<Rightarrow> string list" where
  "split sep s = split_where (\<lambda>c. c = sep) s"

text \<open>\<open>parts.join(sep)\<close>.\<close>

fun join :: "string \<Rightarrow> string list \<Rightarrow> string" where
  "join sep [] = []"
| "join sep [x] = x"
| "join sep (x # y # ys) = x @ sep @ join sep (y # ys)"

text \<open>\<open>n.toString()\<close> for a whole number: decimal digits, a minus sign when negative.\<close>

definition digit_char :: "nat \<Rightarrow> char" where
  "digit_char d = char_of (48 + d)"

fun nat_toString :: "nat \<Rightarrow> string" where
  "nat_toString n =
     (if n < 10 then [digit_char n]
      else nat_toString (n div 10) @ [digit_char (n mod 10)])"

declare nat_toString.simps [simp del]

definition toString :: "int \<Rightarrow> string" where
  "toString i = (if i < 0 then CHR ''-'' # nat_toString (nat (- i)) else nat_toString (nat i))"

text \<open>\<open>s.padStart(n, "0")\<close>.\<close>

definition padStart :: "nat \<Rightarrow> string \<Rightarrow> string" where
  "padStart n s = replicate (n - js_length s) CHR ''0'' @ s"

section \<open>Duration formatter\<close>

text \<open>
  \<open>formatDuration(seconds)\<close>. The guard \<open>!seconds || isNaN(seconds) || seconds < 0\<close>
  rejects \<open>null\<close>/\<open>undefined\<close>, \<open>NaN\<close>, zero (which is falsy) and negative values.
  Past the guard the value is a positive whole number, on which \<open>Math.floor(x / k)\<close> is
  \<open>div\<close> and \<open>%\<close> is \<open>mod\<close>. The \<open>try\<close> block has no failing operation.
\<close>

definition falsy :: "number \<Rightarrow> bool" where
  "falsy x = (case x of NaN \<Rightarrow> True | Num i \<Rightarrow> i = 0)"

definition isNaN :: "number \<Rightarrow> bool" where
  "isNaN x = (x = NaN)"

definition negative :: "number \<Rightarrow> bool" where
  "negative x = (case x of NaN \<Rightarrow> False | Num i \<Rightarrow> i < 0)"

definition formatDuration :: "number option \<Rightarrow> string" where
  "formatDuration seconds =
     (case seconds of
        None \<Rightarrow> ''Unknown''
      | Some x \<Rightarrow>
          if falsy x \<or> isNaN x \<or> negative x then ''Unknown''
          else (case x of
                  NaN \<Rightarrow> ''Unknown''
                | Num sec \<Rightarrow>
                    let h = sec div 3600;
                        m = (sec mod 3600) div 60;
                        s = sec mod 60;
                        parts = (if h > 0 then [h, m, s] else [m, s])
                    in join '':''
                         (map (\<lambda>(index, part).
                                 if index = (0::nat) \<and> h > 0 then toString part
                                 else padStart 2 (toString part))
                              (zip [0 ..< length parts] parts))))"

section \<open>The platform's URL constructor\<close>

text \<open>
  \<open>new URL(input)\<close> is not code of this server: it is the runtime's implementation of
  the WHATWG URL Standard, parsing without a base URL. The model follows the standard's
  state machine for every scheme and keeps the four attributes the server reads;
  \<open>None\<close> is the thrown \<open>TypeError\<close>. One step is left unspecified: the Unicode part
  of domain-to-ASCII, which rests on the Unicode character tables and applies only to
  a host with a non-ASCII character or a label beginning with \<open>xn--\<close>.
\<close>

definition is_upper :: "char \<Rightarrow> bool" where
  "is_upper c = (65 \<le> code c \<and> code c \<le> 90)"

definition is_lower :: "char \<Rightarrow> bool" where
  "is_lower c = (97 \<le> code c \<and> code c \<le> 122)"

definition is_digit :: "char \<Rightarrow> bool" where
  "is_digit c = (48 \<le> code c \<and> code c \<le> 57)"

definition is_alpha :: "char \<Rightarrow> bool" where
  "is_alpha c = (is_upper c \<or> is_lower c)"

definition is_alnum :: "char \<Rightarrow> bool" where
  "is_alnum c = (is_alpha c \<or> is_digit c)"

definition is_hex :: "char \<Rightarrow> bool" where
  "is_hex c = (is_digit c \<or> (65 \<le> code c \<and> code c \<le> 70) \<or> (97 \<le> code c \<and> code c \<le> 102))"

definition hex_val :: "char \<Rightarrow> nat" where
  "hex_val c = (if is_digit c then code c - 48
                else if is_upper c then code c - 55 else code c - 87)"

definition ascii_lower :: "char \<Rightarrow> char" where
  "ascii_lower c = (if is_upper c then char_of (code c + 32) else c)"

subsection \<open>Percent-encoding\<close>

definition hex_digit :: "nat \<Rightarrow> char" where
  "hex_digit n = (if n < 10 then char_of (48 + n) else char_of (55 + n))"

definition percent_byte :: "nat \<Rightarrow> string" where
  "percent_byte b = [CHR ''%'', hex_digit (b div 16), hex_digit (b mod 16)]"

text \<open>
  UTF-8 percent-encoding: every byte of a character in the set is encoded. Each set
  holds all bytes above \<open>0x7E\<close>, so a string is encoded byte by byte.
\<close>

definition percent_encode :: "(char \<Rightarrow> bool) \<Rightarrow> string \<Rightarrow> string" where
  "percent_encode in_set s =
     concat (map (\<lambda>c. if in_set c then percent_byte (code c) else [c]) s)"

definition c0_control_set :: "char \<Rightarrow> bool" where
  "c0_control_set c = (code c \<le> 31 \<or> code c > 126)"

definition query_set :: "char \<Rightarrow> bool" where
  "query_set c = (c0_control_set c \<or> c \<in> set '' \"#<>'')"

definition special_query_set :: "char \<Rightarrow> bool" where
  "special_query_set c = (query_set c \<or> c = CHR 0x27)"

definition path_set :: "char \<Rightarrow> bool" where
  "path_set c = (query_set c \<or> c \<in> set ''?`{}'')"

text \<open>Percent-decoding to bytes.\<close>

fun percent_decode :: "string \<Rightarrow> nat list" where
  "percent_decode [] = []"
| "percent_decode (c # cs) =
     (if c = CHR ''%'' \<and> 2 \<le> length cs \<and> is_hex (cs ! 0) \<and> is_hex (cs ! 1)
      then (16 * hex_val (cs ! 0) + hex_val (cs ! 1)) # percent_decode (drop 2 cs)
      else code c # percent_decode cs)"

text \<open>
  UTF-8 decoding without BOM, and encoding again: a well-formed sequence is kept, and
  each maximal ill-formed part becomes U+FFFD (\<open>EF BF BD\<close>). The arguments after the
  input are the decoder's state: bytes still needed, the bounds of the next byte, and the
  bytes of the character so far.
\<close>

fun utf8_decode :: "nat list \<Rightarrow> nat \<Rightarrow> nat \<Rightarrow> nat \<Rightarrow> nat list \<Rightarrow> nat list" where
  "utf8_decode [] needed lower upper seen = (if needed = 0 then [] else [239, 191, 189])"
| "utf8_decode (b # bs) needed lower upper seen =
     (if needed \<noteq> 0 \<and> lower \<le> b \<and> b \<le> upper
      then (if needed = 1 then seen @ [b] @ utf8_decode bs 0 128 191 []
            else utf8_decode bs (needed - 1) 128 191 (seen @ [b]))
      else
        (if needed \<noteq> 0 then [239, 191, 189] else [])
        @ (if b < 128 then b # utf8_decode bs 0 128 191 []
           else if 194 \<le> b \<and> b \<le> 223 then utf8_decode bs 1 128 191 [b]
           else if 224 \<le> b \<and> b \<le> 239
           then utf8_decode bs 2 (if b = 224 then 160 else 128) (if b = 237 then 159 else 191) [b]
           else if 240 \<le> b \<and> b \<le> 244
           then utf8_decode bs 3 (if b = 240 then 144 else 128) (if b = 244 then 143 else 191) [b]
           else [239, 191, 189] @ utf8_decode bs 0 128 191 []))"

definition percent_decode_string :: "string \<Rightarrow> string" where
  "percent_decode_string s = map char_of (utf8_decode (percent_decode s) 0 128 191 [])"

subsection \<open>Hosts\<close>

definition forbidden_host_char :: "char \<Rightarrow> bool" where
  "forbidden_host_char c =
     (c \<in> set [CHR 0x00, CHR 0x09, CHR 0x0A, CHR 0x0D, CHR 0x5C] \<or> c \<in> set '' #/:<>?@[]^|'')"

definition forbidden_domain_char :: "char \<Rightarrow> bool" where
  "forbidden_domain_char c =
     (forbidden_host_char c \<or> code c \<le> 31 \<or> c = CHR ''%'' \<or> code c = 127)"

text \<open>
  The Unicode part of domain-to-ASCII (UTS 46 processing and Punycode). Nothing is
  known of its result but its type.
\<close>

definition unicode_to_ascii :: "string \<Rightarrow> string option" where
  "unicode_to_ascii domain = undefined domain"

text \<open>
  Domain-to-ASCII: on an ASCII domain none of whose labels begins with \<open>xn--\<close> it is
  ASCII lower-casing.
\<close>

definition domain_to_ascii :: "string \<Rightarrow> string option" where
  "domain_to_ascii domain =
     (if list_all (\<lambda>c. code c < 128) domain
         \<and> \<not> list_ex (\<lambda>label. prefix ''xn--'' (map ascii_lower label))
               (split CHR ''.'' domain)
      then Some (map ascii_lower domain)
      else unicode_to_ascii domain)"

text \<open>IPv4: a number in decimal, octal (leading \<open>0\<close>) or hexadecimal (leading \<open>0x\<close>).\<close>

definition ipv4_number :: "string \<Rightarrow> nat option" where
  "ipv4_number input =
     (if input = [] then None
      else
        let hex = (2 \<le> length input \<and> (prefix ''0x'' input \<or> prefix ''0X'' input));
            oct = (\<not> hex \<and> 2 \<le> length input \<and> prefix ''0'' input);
            r = (if hex then 16 else if oct then 8 else 10);
            digits = (if hex then drop 2 input else if oct then drop 1 input else input)
        in if list_all (\<lambda>c. is_hex c \<and> hex_val c < r) digits
           then Some (foldl (\<lambda>a c. r * a + hex_val c) 0 digits)
           else None)"

definition ends_in_number :: "string \<Rightarrow> bool" where
  "ends_in_number d =
     (let parts = split CHR ''.'' d;
          parts' = (if last parts = [] then butlast parts else parts)
      in parts' \<noteq> [] \<and>
         (let l = last parts'
          in (l \<noteq> [] \<and> list_all is_digit l) \<or> ipv4_number l \<noteq> None))"

definition ipv4_serialize :: "nat \<Rightarrow> string" where
  "ipv4_serialize n =
     join ''.'' (map (\<lambda>k. nat_toString (n div 256 ^ k mod 256)) [3, 2, 1, 0])"

definition ipv4_parse :: "string \<Rightarrow> string option" where
  "ipv4_parse d =
     (let parts = split CHR ''.'' d;
          parts' = (if last parts = [] \<and> 1 < length parts then butlast parts else parts)
      in if 4 < length parts' then None
         else
           (case those (map ipv4_number parts') of
              None \<Rightarrow> None
            | Some numbers \<Rightarrow>
                if list_ex (\<lambda>n. 255 < n) (butlast numbers) then None
                else if 256 ^ (5 - length numbers) \<le> last numbers then None
                else
                  Some (ipv4_serialize
                          (last numbers
                           + sum_list (map (\<lambda>(n, counter). n * 256 ^ (3 - counter))
                                           (zip (butlast numbers) [0 ..< 3]))))))"

text \<open>
  IPv6. \<open>ipv6_pieces\<close> is the parser's main loop: \<open>front\<close> holds the pieces read front
  the compression marker once it is seen, \<open>pieces\<close> those read since; the piece index of
  the standard is their number, plus one for the marker.
\<close>

fun take_hex :: "nat \<Rightarrow> string \<Rightarrow> string" where
  "take_hex n [] = []"
| "take_hex n (c # cs) = (if 0 < n \<and> is_hex c then c # take_hex (n - 1) cs else [])"

definition decimal_value :: "string \<Rightarrow> nat" where
  "decimal_value ds = foldl (\<lambda>a c. 10 * a + (code c - 48)) 0 ds"

definition hex_value :: "string \<Rightarrow> nat" where
  "hex_value ds = foldl (\<lambda>a c. 16 * a + hex_val c) 0 ds"

definition ipv4_in_ipv6 :: "string \<Rightarrow> nat list option" where
  "ipv4_in_ipv6 s =
     (let parts = split CHR ''.'' s
      in if length parts = 4
            \<and> list_all (\<lambda>p. p \<noteq> [] \<and> list_all is_digit p
                              \<and> (length p = 1 \<or> hd p \<noteq> CHR ''0'') \<and> decimal_value p \<le> 255)
                 parts
         then Some [decimal_value (parts ! 0) * 256 + decimal_value (parts ! 1),
                    decimal_value (parts ! 2) * 256 + decimal_value (parts ! 3)]
         else None)"

function ipv6_pieces :: "string \<Rightarrow> nat list option \<Rightarrow> nat list \<Rightarrow> (nat list option \<times> nat list) option" where
  "ipv6_pieces s front pieces =
     (let pieceIndex = (case front of None \<Rightarrow> 0 | Some b \<Rightarrow> length b + 1) + length pieces
      in if s = [] then Some (front, pieces)
         else if pieceIndex = 8 then None
         else if hd s = CHR '':''
         then (if front \<noteq> None then None else ipv6_pieces (tl s) (Some pieces) [])
         else
           let digits = take_hex 4 s;
               rest = drop (length digits) s
           in if rest = [] then (if digits = [] then None else Some (front, pieces @ [hex_value digits]))
              else if hd rest = CHR ''.''
              then (if digits = [] \<or> 6 < pieceIndex then None
                    else map_option (\<lambda>v4. (front, pieces @ v4)) (ipv4_in_ipv6 s))
              else if hd rest = CHR '':'' \<and> digits \<noteq> [] \<and> tl rest \<noteq> []
              then ipv6_pieces (tl rest) front (pieces @ [hex_value digits])
              else None)"
  by pat_completeness auto
termination
  by (relation "measure (\<lambda>(s, front, pieces). length s)") auto

definition ipv6_parse :: "string \<Rightarrow> nat list option" where
  "ipv6_parse s =
     (case (if prefix '':'' s
            then (if prefix ''::'' s then ipv6_pieces (drop 2 s) (Some []) [] else None)
            else ipv6_pieces s None []) of
        None \<Rightarrow> None
      | Some (None, pieces) \<Rightarrow> if length pieces = 8 then Some pieces else None
      | Some (Some front, pieces) \<Rightarrow>
          Some (front @ replicate (8 - length front - length pieces) 0 @ pieces))"

fun zero_run :: "nat list \<Rightarrow> nat" where
  "zero_run [] = 0"
| "zero_run (p # ps) = (if p = 0 then Suc (zero_run ps) else 0)"

fun hex_toString :: "nat \<Rightarrow> string" where
  "hex_toString n =
     (if n < 16 then [ascii_lower (hex_digit n)]
      else hex_toString (n div 16) @ [ascii_lower (hex_digit (n mod 16))])"

declare hex_toString.simps [simp del]

text \<open>The serialiser compresses the first longest run of two or more zero pieces.\<close>

definition ipv6_serialize :: "nat list \<Rightarrow> string" where
  "ipv6_serialize address =
     (let runs = map (\<lambda>i. zero_run (drop i address)) [0 ..< length address];
          longest = fold max runs 0
      in if longest < 2 then join '':'' (map hex_toString address)
         else
           let compress = length (takeWhile (\<lambda>r. r \<noteq> longest) runs)
           in concat (map (\<lambda>p. hex_toString p @ '':'') (take compress address))
              @ (if compress = 0 then ''::'' else '':'')
              @ join '':'' (map hex_toString (drop (compress + longest) address)))"

text \<open>
  The host parser. An opaque host (of a scheme that is not special) keeps its letter
  case; a domain is percent-decoded, mapped to ASCII and, when it ends in a number, read
  as an IPv4 address.
\<close>

definition parse_host :: "bool \<Rightarrow> string \<Rightarrow> string option" where
  "parse_host opaque input =
     (if prefix ''['' input
      then (if last input \<noteq> CHR '']'' then None
            else map_option (\<lambda>address. ''['' @ ipv6_serialize address @ '']'')
                   (ipv6_parse (butlast (tl input))))
      else if opaque
      then (if list_ex forbidden_host_char input then None
            else Some (percent_encode c0_control_set input))
      else
        (case domain_to_ascii (percent_decode_string input) of
           None \<Rightarrow> None
         | Some asciiDomain \<Rightarrow>
             if asciiDomain = [] \<or> list_ex forbidden_domain_char asciiDomain then None
             else if ends_in_number asciiDomain then ipv4_parse asciiDomain
             else Some asciiDomain))"

subsection \<open>Parsing\<close>

record url =
  protocol :: string
  hostname :: string
  pathname :: string
  searchParams :: "(string \<times> string) list"

definition is_c0_or_space :: "char \<Rightarrow> bool" where
  "is_c0_or_space c = (code c \<le> 32)"

definition is_tab_or_newline :: "char \<Rightarrow> bool" where
  "is_tab_or_newline c = (c = CHR 0x09 \<or> c = CHR 0x0A \<or> c = CHR 0x0D)"

text \<open>
  Leading and trailing C0 controls and spaces are stripped, then every tab and newline
  is removed, before the state machine starts.
\<close>

definition clean_input :: "string \<Rightarrow> string" where
  "clean_input s =
     filter (\<lambda>c. \<not> is_tab_or_newline c)
       (rev (dropWhile is_c0_or_space (rev (dropWhile is_c0_or_space s))))"

text \<open>
  Scheme start state and scheme state: a letter, then letters, digits, \<open>+\<close>, \<open>-\<close>, \<open>.\<close>
  up to a colon; the scheme is lower-cased. Without a base URL anything else fails.
\<close>

definition is_scheme_char :: "char \<Rightarrow> bool" where
  "is_scheme_char c = (is_alnum c \<or> c = CHR ''+'' \<or> c = CHR ''-'' \<or> c = CHR ''.'')"

definition parse_scheme :: "string \<Rightarrow> (string \<times> string) option" where
  "parse_scheme s =
     (case s of
        [] \<Rightarrow> None
      | c # cs \<Rightarrow>
          if is_alpha c then
            (case dropWhile is_scheme_char s of
               [] \<Rightarrow> None
             | d # rest \<Rightarrow>
                 if d = CHR '':'' then Some (map ascii_lower (takeWhile is_scheme_char s), rest)
                 else None)
          else None)"

definition special_schemes :: "string list" where
  "special_schemes = [''ftp'', ''file'', ''http'', ''https'', ''ws'', ''wss'']"

definition is_slash :: "char \<Rightarrow> bool" where
  "is_slash c = (c = CHR ''/'' \<or> c = CHR 0x5C)"

text \<open>
  The characters that end the authority, and those that end a path segment: the
  backslash counts only in a special scheme.
\<close>

definition authority_end :: "bool \<Rightarrow> char \<Rightarrow> bool" where
  "authority_end special c =
     (c = CHR ''/'' \<or> c = CHR ''?'' \<or> c = CHR ''#'' \<or> (special \<and> c = CHR 0x5C))"

definition segment_end :: "bool \<Rightarrow> char \<Rightarrow> bool" where
  "segment_end special c = (c = CHR ''/'' \<or> (special \<and> c = CHR 0x5C))"

definition path_end :: "char \<Rightarrow> bool" where
  "path_end c = (c = CHR ''?'' \<or> c = CHR ''#'')"

definition port_ok :: "string \<Rightarrow> bool" where
  "port_ok p =
     (case p of
        [] \<Rightarrow> True
      | c # ds \<Rightarrow> list_all is_digit ds \<and> decimal_value ds \<le> 65535)"

text \<open>The host ends at the first colon outside square brackets.\<close>

fun host_length :: "bool \<Rightarrow> string \<Rightarrow> nat" where
  "host_length insideBrackets [] = 0"
| "host_length insideBrackets (c # cs) =
     (if c = CHR '':'' \<and> \<not> insideBrackets then 0
      else Suc (host_length (if c = CHR ''['' then True
                             else if c = CHR '']'' then False
                             else insideBrackets) cs))"

text \<open>
  Authority state, host state and port state: credentials end at the last \<open>@\<close>; a
  colon after an empty host fails, as does an empty host in a special scheme; the port
  must be digits not above 65535.
\<close>

definition parse_authority :: "bool \<Rightarrow> string \<Rightarrow> string option" where
  "parse_authority special a =
     (let hostport = rev (takeWhile (\<lambda>c. c \<noteq> CHR ''@'') (rev a));
          buffer = take (host_length False hostport) hostport;
          port = drop (host_length False hostport) hostport
      in if CHR ''@'' \<in> set a \<and> hostport = [] then None
         else if buffer = [] \<and> (special \<or> port \<noteq> []) then None
         else if port_ok port then parse_host (\<not> special) buffer
         else None)"

text \<open>
  Path state: a double-dot segment removes the segment before it, a single-dot segment
  is dropped, and either leaves an empty segment when it is the last one. In a
  \<open>file\<close> URL a leading drive letter is normalised and never removed.
\<close>

definition single_dot :: "string \<Rightarrow> bool" where
  "single_dot seg = (map ascii_lower seg \<in> set [''.'', ''%2e''])"

definition double_dot :: "string \<Rightarrow> bool" where
  "double_dot seg = (map ascii_lower seg \<in> set [''..'', ''.%2e'', ''%2e.'', ''%2e%2e''])"

definition drive_letter :: "string \<Rightarrow> bool" where
  "drive_letter seg =
     (length seg = 2 \<and> is_alpha (seg ! 0) \<and> (seg ! 1 = CHR '':'' \<or> seg ! 1 = CHR ''|''))"

definition shorten :: "bool \<Rightarrow> string list \<Rightarrow> string list" where
  "shorten is_file path =
     (if is_file \<and> length path = 1 \<and> drive_letter (path ! 0) \<and> path ! 0 ! 1 = CHR '':''
      then path else butlast path)"

fun path_segments :: "bool \<Rightarrow> string list \<Rightarrow> string list \<Rightarrow> string list" where
  "path_segments is_file path [] = path"
| "path_segments is_file path (seg # rest) =
     (let buffer = percent_encode path_set seg
      in if double_dot buffer
         then path_segments is_file
                (shorten is_file path @ (if rest = [] then [[]] else [])) rest
         else if single_dot buffer
         then path_segments is_file (path @ (if rest = [] then [[]] else [])) rest
         else if is_file \<and> path = [] \<and> drive_letter buffer
         then path_segments is_file [[buffer ! 0, CHR '':'']] rest
         else path_segments is_file (path @ [buffer]) rest)"

text \<open>The path state run on its input, serialised as \<open>pathname\<close> gives it.\<close>

definition path_state :: "bool \<Rightarrow> bool \<Rightarrow> string \<Rightarrow> string" where
  "path_state special is_file p =
     concat (map ((#) CHR ''/'')
               (path_segments is_file [] (split_where (segment_end special) p)))"

text \<open>
  Path start state: a special scheme always enters the path state, past one leading
  slash; another scheme does so only when something is left, which then begins with
  the slash that ended the authority.
\<close>

definition path_start :: "bool \<Rightarrow> bool \<Rightarrow> string \<Rightarrow> string" where
  "path_start special is_file p =
     (if special
      then path_state special is_file (if p \<noteq> [] \<and> is_slash (hd p) then tl p else p)
      else if p = [] then []
      else path_state special is_file (tl p))"

text \<open>
  The \<open>application/x-www-form-urlencoded\<close> parser behind \<open>searchParams\<close>: split at
  \<open>&\<close>, skip empty pieces, split each at its first \<open>=\<close>, turn \<open>+\<close> into a space,
  percent-decode.
\<close>

definition form_decode :: "string \<Rightarrow> string" where
  "form_decode s = percent_decode_string (map (\<lambda>c. if c = CHR ''+'' then CHR '' '' else c) s)"

fun parse_pairs :: "string list \<Rightarrow> (string \<times> string) list" where
  "parse_pairs [] = []"
| "parse_pairs (p # ps) =
     (if p = [] then parse_pairs ps
      else (form_decode (takeWhile (\<lambda>c. c \<noteq> CHR ''='') p),
            form_decode (drop 1 (dropWhile (\<lambda>c. c \<noteq> CHR ''='') p)))
           # parse_pairs ps)"

definition parse_query :: "string \<Rightarrow> (string \<times> string) list" where
  "parse_query q = parse_pairs (split CHR ''&'' q)"

text \<open>
  What follows the scheme, by the kind of scheme. \<open>body\<close> is the input up to the query
  or fragment. Each function answers the hostname and the pathname.
\<close>

definition parse_special :: "string \<Rightarrow> (string \<times> string) option" where
  "parse_special body =
     (let r = dropWhile is_slash body
      in map_option
           (\<lambda>host. (host, path_start True False (dropWhile (\<lambda>c. \<not> authority_end True c) r)))
           (parse_authority True (takeWhile (\<lambda>c. \<not> authority_end True c) r)))"

text \<open>
  File state, file slash state and file host state: a host is read only after two
  slashes; a drive letter in its place belongs to the path; \<open>localhost\<close> is the empty
  host.
\<close>

definition parse_file :: "string \<Rightarrow> (string \<times> string) option" where
  "parse_file body =
     (if body \<noteq> [] \<and> is_slash (hd body)
      then
        (if tl body \<noteq> [] \<and> is_slash (hd (tl body))
         then
           let r = tl (tl body);
               buffer = takeWhile (\<lambda>c. \<not> is_slash c) r;
               rest = dropWhile (\<lambda>c. \<not> is_slash c) r
           in if drive_letter buffer then Some ([], path_state True True r)
              else if buffer = [] then Some ([], path_start True True rest)
              else map_option
                     (\<lambda>host. (if host = ''localhost'' then [] else host,
                              path_start True True rest))
                     (parse_host False buffer)
         else Some ([], path_state True True (tl body)))
      else Some ([], path_state True True body))"

text \<open>
  Any other scheme: an authority after two slashes, a path after one, and otherwise an
  opaque path.
\<close>

definition parse_other :: "string \<Rightarrow> (string \<times> string) option" where
  "parse_other body =
     (if prefix ''//'' body
      then
        let r = drop 2 body
        in map_option
             (\<lambda>host. (host, path_start False False (dropWhile (\<lambda>c. \<not> authority_end False c) r)))
             (parse_authority False (takeWhile (\<lambda>c. \<not> authority_end False c) r))
      else if prefix ''/'' body then Some ([], path_state False False (tl body))
      else Some ([], percent_encode c0_control_set body))"

definition new_URL :: "string \<Rightarrow> url option" where
  "new_URL input =
     (case parse_scheme (clean_input input) of
        None \<Rightarrow> None
      | Some (scheme, rest) \<Rightarrow>
          let special = (scheme \<in> set special_schemes);
              body = takeWhile (\<lambda>c. \<not> path_end c) rest;
              tail = dropWhile (\<lambda>c. \<not> path_end c) rest;
              query = (if prefix ''?'' tail then takeWhile (\<lambda>c. c \<noteq> CHR ''#'') (tl tail) else [])
          in map_option
               (\<lambda>(host, path).
                  \<lparr>protocol = scheme @ '':'',
                   hostname = host,
                   pathname = path,
                   searchParams =
                     parse_query
                       (percent_encode (if special then special_query_set else query_set) query)\<rparr>)
               (if scheme = ''file'' then parse_file body
                else if special then parse_special body
                else parse_other body))"

text \<open>\<open>url.searchParams.get(name)\<close>: the value of the first pair with that name.\<close>

definition searchParams_get :: "url \<Rightarrow> string \<Rightarrow> string option" where
  "searchParams_get u name = map_option snd (find_first (\<lambda>p. fst p = name) (searchParams u))"

text \<open>
  The serialiser behind \<open>searchParams.set\<close> followed by \<open>toString()\<close>: letters, digits,
  \<open>*\<close>, \<open>-\<close>, \<open>.\<close> and \<open>_\<close> stay, a space becomes \<open>+\<close>, every other byte is
  percent-encoded.
\<close>

definition form_encode :: "string \<Rightarrow> string" where
  "form_encode s =
     concat (map (\<lambda>c. if c = CHR '' '' then ''+''
                       else if is_alnum c \<or> c \<in> set ''*-._'' then [c]
                       else percent_byte (code c)) s)"

text \<open>\<open>encodeURIComponent(s)\<close>.\<close>

definition encodeURIComponent :: "string \<Rightarrow> string" where
  "encodeURIComponent s =
     concat (map (\<lambda>c. if is_alnum c \<or> c \<in> set (''-_.!~*()'' @ [CHR 0x27]) then [c]
                       else percent_byte (code c)) s)"

section \<open>URL classifier\<close>

definition PLATFORM_DOMAINS :: "(string \<times> string list) list" where
  "PLATFORM_DOMAINS =
     [(''YouTube'', [''youtube.com'', ''www.youtube.com'', ''youtu.be'', ''m.youtube.com'']),
      (''TikTok'', [''tiktok.com'', ''www.tiktok.com'', ''vm.tiktok.com'']),
      (''Facebook'', [''facebook.com'', ''www.facebook.com'', ''m.facebook.com'', ''fb.watch''])]"

definition isValidUrl :: "string \<Rightarrow> bool" where
  "isValidUrl string =
     (case new_URL string of
        None \<Rightarrow> False
      | Some url \<Rightarrow> protocol url = ''http:'' \<or> protocol url = ''https:'')"

text \<open>
  \<open>s.toLowerCase()\<close> on a string of ASCII characters, which is what the server
  applies it to: a hostname as the URL parser serialises it, and a title whose other
  characters have been replaced.
\<close>

definition toLowerCase :: "string \<Rightarrow> string" where
  "toLowerCase s = map ascii_lower s"

definition extractPlatform :: "string \<Rightarrow> string option" where
  "extractPlatform url =
     (case new_URL url of
        None \<Rightarrow> None
      | Some u \<Rightarrow>
          map_option fst
            (find_first (\<lambda>(platform, domains).
                           list_ex (\<lambda>domain. str_includes (toLowerCase (hostname u)) domain) domains)
                        PLATFORM_DOMAINS))"

section \<open>YouTube normaliser\<close>

definition truthy :: "string option \<Rightarrow> bool" where
  "truthy v = (case v of None \<Rightarrow> False | Some s \<Rightarrow> s \<noteq> [])"

text \<open>
  \<open>new URL("https://www.youtube.com/watch")\<close> with \<open>v\<close> set in its \<open>searchParams\<close>,
  serialised.
\<close>

definition watch_url :: "string \<Rightarrow> string" where
  "watch_url videoId = ''https://www.youtube.com/watch?'' @ form_encode ''v'' @ ''='' @ form_encode videoId"

definition cleanYouTubeUrl :: "string \<Rightarrow> string" where
  "cleanYouTubeUrl url =
     (case new_URL url of
        None \<Rightarrow> url
      | Some urlObj \<Rightarrow>
          let videoId0 =
                (if str_includes (hostname urlObj) ''youtu.be''
                    \<or> str_includes (pathname urlObj) ''/shorts/''
                 then find_first (\<lambda>segment. js_length segment \<ge> 10 \<and> js_length segment \<le> 11)
                        (split CHR ''/'' (pathname urlObj))
                 else None);
              videoId =
                (if \<not> truthy videoId0 \<and> str_includes (hostname urlObj) ''youtube.com''
                 then searchParams_get urlObj ''v''
                 else videoId0)
          in (case videoId of
                None \<Rightarrow> url
              | Some v \<Rightarrow> if v = [] then url else watch_url v))"

definition extractYouTubeId :: "string \<Rightarrow> string option" where
  "extractYouTubeId url =
     (case new_URL url of
        None \<Rightarrow> None
      | Some urlObj \<Rightarrow> searchParams_get urlObj ''v'')"

section \<open>External services\<close>

text \<open>
  An \<open>axios\<close> call either rejects, with an error carrying a \<open>message\<close> and possibly
  the upstream body's \<open>error\<close> field (\<open>error.response?.data?.error\<close>), or resolves with
  the parsed response body. The bodies are records of the fields the server reads, each
  field absent (\<open>None\<close>) or of the type the upstream service documents. The environment
  of a request holds the configured key, the answers of the three services to the calls
  the handlers make, and the clock.
\<close>

record axios_error =
  message :: string
  response_error :: "string option"

datatype 'a axios_result = Rejected axios_error | Resolved 'a

record oembed =
  oe_error :: "string option"
  oe_title :: "string option"
  oe_author_name :: "string option"
  oe_thumbnail_url :: "string option"

record tiktok_author =
  nickname :: "string option"
  unique_id :: "string option"

record tiktok_data =
  td_id :: "string option"
  td_title :: "string option"
  td_author :: "tiktok_author option"
  td_duration :: "number option"
  td_cover :: "string option"
  td_images :: "string list option"
  td_play :: "string option"
  td_wmplay :: "string option"
  td_play_count :: "int option"

record tiktok_response =
  tr_code :: "number option"
  tr_msg :: "string option"
  tr_data :: "tiktok_data option"

record env =
  API_KEY :: string
  axios_get :: "string \<Rightarrow> oembed axios_result"
  axios_post :: "string \<Rightarrow> string \<Rightarrow> tiktok_response axios_result"
  axios_stream :: "string \<Rightarrow> nat list axios_result"
  Date_now :: int

definition TIKTOK_API_URL :: string where
  "TIKTOK_API_URL = ''https://www.tikwm.com/api/''"

definition NOEMBED_API_URL :: string where
  "NOEMBED_API_URL = ''https://noembed.com/embed''"

section \<open>Metadata providers\<close>

record download_option =
  opt_id :: string
  opt_format_id :: "string option"
  opt_label :: string
  opt_ext :: string
  opt_quality :: string
  opt_url :: "string option"
  opt_hasAudio :: "bool option"

text \<open>\<open>md_uploadDate\<close> is \<open>Some ()\<close> where the property is present (always \<open>null\<close>).\<close>

record VideoMetadata =
  md_id :: string
  md_title :: string
  md_uploader :: string
  md_duration :: string
  md_thumbnail :: "string option"
  md_description :: string
  md_viewCount :: "int option"
  md_uploadDate :: "unit option"
  md_options :: "download_option list"
  md_platform :: string

text \<open>\<open>v || d\<close> for a string that may be missing, with a string or \<open>null\<close> default.\<close>

definition or_else :: "string option \<Rightarrow> string \<Rightarrow> string" where
  "or_else v d = (case v of None \<Rightarrow> d | Some s \<Rightarrow> if s = [] then d else s)"

definition or_null :: "string option \<Rightarrow> string option \<Rightarrow> string option" where
  "or_null v w = (if truthy v then v else if truthy w then w else None)"

definition external_option :: "string \<Rightarrow> string \<Rightarrow> string \<Rightarrow> string \<Rightarrow> download_option" where
  "external_option i l e q =
     \<lparr>opt_id = i, opt_format_id = None, opt_label = l, opt_ext = e, opt_quality = q,
      opt_url = None, opt_hasAudio = None\<rparr>"

text \<open>
  The \<open>catch\<close> of the YouTube and Facebook providers:
  \<open>error.response?.data?.error || error.message\<close>.
\<close>

definition rejection_reason :: "axios_error \<Rightarrow> string" where
  "rejection_reason e = or_else (response_error e) (message e)"

definition getYouTubeMetadata :: "env \<Rightarrow> string \<Rightarrow> string + VideoMetadata" where
  "getYouTubeMetadata env url =
     (case extractYouTubeId url of
        None \<Rightarrow> Inl ''YouTube: Invalid video URL or ID could not be extracted.''
      | Some videoId \<Rightarrow>
          if videoId = [] then Inl ''YouTube: Invalid video URL or ID could not be extracted.''
          else
            (case axios_get env (NOEMBED_API_URL @ ''?url='' @ encodeURIComponent url) of
               Rejected e \<Rightarrow>
                 Inl (''YouTube: Could not fetch video information. Reason: '' @ rejection_reason e)
             | Resolved data \<Rightarrow>
                 if truthy (oe_error data)
                 then Inl (''YouTube: Could not fetch video information. Reason: ''
                           @ the (oe_error data))
                 else
                   Inr \<lparr>md_id = videoId,
                        md_title = or_else (oe_title data) ''YouTube Video'',
                        md_uploader = or_else (oe_author_name data) ''YouTube'',
                        md_duration = ''Unknown'',
                        md_thumbnail =
                          Some (''https://img.youtube.com/vi/'' @ videoId @ ''/maxresdefault.jpg''),
                        md_description = or_else (oe_title data) [],
                        md_viewCount = None,
                        md_uploadDate = Some (),
                        md_options =
                          [external_option ''best'' ''Best Quality (External)'' ''mp4'' ''1080p'',
                           external_option ''720p'' ''HD 720p (External)'' ''mp4'' ''720p'',
                           external_option ''480p'' ''SD 480p (External)'' ''mp4'' ''480p'',
                           external_option ''audio'' ''Audio Only (External)'' ''mp3'' ''audio''],
                        md_platform = ''YouTube''\<rparr>))"

text \<open>
  The TikTok provider. Every failure inside its \<open>try\<close> is rethrown with the prefix
  \<open>TikTok: \<close>. \<open>qualityOptions\<close> is built by the two conditional pushes.
\<close>

definition tiktok_options :: "tiktok_data \<Rightarrow> download_option list" where
  "tiktok_options data =
     (if truthy (td_play data)
      then [\<lparr>opt_id = ''nowm'', opt_format_id = Some ''nowm'', opt_label = ''HD (No Watermark)'',
             opt_ext = ''mp4'', opt_quality = ''best'', opt_url = td_play data,
             opt_hasAudio = None\<rparr>]
      else [])
     @ (if truthy (td_wmplay data)
        then [\<lparr>opt_id = ''wm'', opt_format_id = Some ''wm'',
               opt_label = ''Standard (With Watermark)'', opt_ext = ''mp4'',
               opt_quality = ''standard'', opt_url = td_wmplay data, opt_hasAudio = None\<rparr>]
        else [])"

definition getTikTokMetadata :: "env \<Rightarrow> string \<Rightarrow> string + VideoMetadata" where
  "getTikTokMetadata env url =
     (case axios_post env TIKTOK_API_URL url of
        Rejected e \<Rightarrow> Inl (''TikTok: '' @ message e)
      | Resolved responseData \<Rightarrow>
          if tr_code responseData \<noteq> Some (Num 0) \<or> tr_data responseData = None
          then Inl (''TikTok: '' @ ''TikTok API Error: ''
                    @ or_else (tr_msg responseData) ''Video not found or unavailable.'')
          else
            let data = the (tr_data responseData);
                qualityOptions = tiktok_options data
            in if length qualityOptions = 0
               then Inl (''TikTok: '' @ ''No video formats available for this TikTok.'')
               else
                 Inr \<lparr>md_id = or_else (td_id data) (''tiktok-'' @ toString (Date_now env)),
                      md_title = or_else (td_title data) ''TikTok Video'',
                      md_uploader =
                        or_else (Option.bind (td_author data) nickname)
                          (or_else (Option.bind (td_author data) unique_id) ''TikTok User''),
                      md_duration = formatDuration (td_duration data),
                      md_thumbnail =
                        or_null (td_cover data)
                          (case td_images data of
                             None \<Rightarrow> None
                           | Some [] \<Rightarrow> None
                           | Some (i # _) \<Rightarrow> Some i),
                      md_description = or_else (td_title data) [],
                      md_viewCount = td_play_count data,
                      md_uploadDate = None,
                      md_options = qualityOptions,
                      md_platform = ''TikTok''\<rparr>)"

definition getFacebookMetadata :: "env \<Rightarrow> string \<Rightarrow> string + VideoMetadata" where
  "getFacebookMetadata env url =
     (case axios_get env (NOEMBED_API_URL @ ''?url='' @ encodeURIComponent url) of
        Rejected e \<Rightarrow>
          Inl (''Facebook: Could not fetch video information. Reason: '' @ rejection_reason e)
      | Resolved data \<Rightarrow>
          if truthy (oe_error data)
          then Inl (''Facebook: Could not fetch video information. Reason: ''
                    @ the (oe_error data))
          else
            Inr \<lparr>md_id = or_else (Some (last (split CHR ''/'' url)))
                            (''fb-'' @ toString (Date_now env)),
                 md_title = or_else (oe_title data) ''Facebook Video'',
                 md_uploader = or_else (oe_author_name data) ''Facebook'',
                 md_duration = ''Unknown'',
                 md_thumbnail = or_null (oe_thumbnail_url data) None,
                 md_description = or_else (oe_title data) [],
                 md_viewCount = None,
                 md_uploadDate = None,
                 md_options =
                   [external_option ''best'' ''Best Quality (External)'' ''mp4'' ''best'',
                    external_option ''sd'' ''Standard Quality (External)'' ''mp4'' ''480p'',
                    external_option ''audio'' ''Audio Only (External)'' ''mp3'' ''audio''],
                 md_platform = ''Facebook''\<rparr>)"

section \<open>Request handlers\<close>

text \<open>
  A request is its three query parameters as the framework's query parser delivers
  them: absent, one string, an array (a parameter given several times) or an object (a
  parameter written with brackets). A response is a JSON body sent with a status, a
  redirect, or the streamed download with its two headers; \<open>Throws\<close> is a handler
  whose promise rejects before anything is sent, and \<open>NoResponse\<close> one that returns
  without sending.
\<close>

datatype query_value =
    QString string
  | QArray "query_value list"
  | QObject "(string \<times> query_value) list"

record request =
  q_url :: "query_value option"
  q_format :: "query_value option"
  q_key :: "query_value option"

record json_body =
  success :: bool
  error :: "string option"
  data :: "VideoMetadata option"

datatype response =
    Json nat json_body
  | Redirect nat string
  | Download string string "nat list"
  | Throws string
  | NoResponse

definition failure :: "nat \<Rightarrow> string \<Rightarrow> response" where
  "failure status msg = Json status \<lparr>success = False, error = Some msg, data = None\<rparr>"

text \<open>
  \<open>s.trim()\<close>: the white space and line terminators of the language, in UTF-8.
  \<open>trim_start\<close> skips the bytes of a white-space character once it has met its first.
\<close>

definition whitespace :: "string list" where
  "whitespace =
     [[CHR 0x09], [CHR 0x0A], [CHR 0x0B], [CHR 0x0C], [CHR 0x0D], [CHR 0x20],
      [CHR 0xC2, CHR 0xA0], [CHR 0xE1, CHR 0x9A, CHR 0x80],
      [CHR 0xE2, CHR 0x80, CHR 0x80], [CHR 0xE2, CHR 0x80, CHR 0x81],
      [CHR 0xE2, CHR 0x80, CHR 0x82], [CHR 0xE2, CHR 0x80, CHR 0x83],
      [CHR 0xE2, CHR 0x80, CHR 0x84], [CHR 0xE2, CHR 0x80, CHR 0x85],
      [CHR 0xE2, CHR 0x80, CHR 0x86], [CHR 0xE2, CHR 0x80, CHR 0x87],
      [CHR 0xE2, CHR 0x80, CHR 0x88], [CHR 0xE2, CHR 0x80, CHR 0x89],
      [CHR 0xE2, CHR 0x80, CHR 0x8A], [CHR 0xE2, CHR 0x80, CHR 0xA8],
      [CHR 0xE2, CHR 0x80, CHR 0xA9], [CHR 0xE2, CHR 0x80, CHR 0xAF],
      [CHR 0xE2, CHR 0x81, CHR 0x9F], [CHR 0xE3, CHR 0x80, CHR 0x80],
      [CHR 0xEF, CHR 0xBB, CHR 0xBF]]"

definition whitespace_at :: "string list \<Rightarrow> string \<Rightarrow> nat" where
  "whitespace_at table s =
     (case find_first (\<lambda>w. prefix w s) table of None \<Rightarrow> 0 | Some w \<Rightarrow> length w)"

fun trim_start :: "string list \<Rightarrow> nat \<Rightarrow> string \<Rightarrow> string" where
  "trim_start table skip [] = []"
| "trim_start table skip (c # cs) =
     (if 0 < skip then trim_start table (skip - 1) cs
      else if whitespace_at table (c # cs) = 0 then c # cs
      else trim_start table (whitespace_at table (c # cs) - 1) cs)"

definition trim :: "string \<Rightarrow> string" where
  "trim s = rev (trim_start (map rev whitespace) 0 (rev (trim_start whitespace 0 s)))"

text \<open>
  \<open>req.query.url?.trim()\<close>: \<open>undefined\<close> when the parameter is absent, the trimmed
  string when it is a string, and a \<open>TypeError\<close> (\<open>Inl\<close> its message) when it is an
  array or an object, which have no \<open>trim\<close> method.
\<close>

definition url_trim :: "query_value option \<Rightarrow> string + string option" where
  "url_trim v =
     (case v of
        None \<Rightarrow> Inr None
      | Some (QString s) \<Rightarrow> Inr (Some (trim s))
      | Some _ \<Rightarrow> Inl ''req.query.url?.trim is not a function'')"

subsection \<open>GET /api/metadata\<close>

text \<open>The \<open>try\<close> block: the provider of the platform, on the cleaned URL for YouTube.\<close>

definition fetch_metadata :: "env \<Rightarrow> string \<Rightarrow> string \<Rightarrow> string + VideoMetadata" where
  "fetch_metadata env platform rawUrl =
     (if platform = ''YouTube'' then getYouTubeMetadata env (cleanYouTubeUrl rawUrl)
      else if platform = ''TikTok'' then getTikTokMetadata env rawUrl
      else if platform = ''Facebook'' then getFacebookMetadata env rawUrl
      else Inl ''Platform mismatch'')"

text \<open>The \<open>catch\<close> block: the status is read off the message.\<close>

definition metadata_catch :: "string \<Rightarrow> response" where
  "metadata_catch errorMessage =
     failure
       (if str_includes errorMessage ''not found'' \<or> str_includes errorMessage ''unavailable''
        then 404
        else if str_includes errorMessage ''Invalid'' \<or> str_includes errorMessage ''Unsupported''
        then 400
        else if str_includes errorMessage ''timeout'' then 504
        else 500)
       errorMessage"

text \<open>The first statement of the handler stands outside its \<open>try\<close>.\<close>

definition api_metadata :: "env \<Rightarrow> request \<Rightarrow> response" where
  "api_metadata env req =
     (case url_trim (q_url req) of
        Inl typeError \<Rightarrow> Throws typeError
      | Inr rawUrl \<Rightarrow>
          if \<not> truthy rawUrl then failure 400 ''URL parameter is required.''
          else if \<not> isValidUrl (the rawUrl)
          then failure 400 ''Invalid URL format. Must include http:// or https://''
          else
            (case extractPlatform (the rawUrl) of
               None \<Rightarrow>
                 failure 400
                   (''Unsupported platform. Supported: '' @ join '', '' (map fst PLATFORM_DOMAINS))
             | Some platform \<Rightarrow>
                 (case fetch_metadata env platform (the rawUrl) of
                    Inr metadata \<Rightarrow>
                      Json 200 \<lparr>success = True, error = None, data = Some metadata\<rparr>
                  | Inl msg \<Rightarrow> metadata_catch msg)))"

subsection \<open>GET /api/download\<close>

text \<open>
  The \<open>catch\<close> block. Every failure modelled here happens before a header is sent, so
  the guard \<open>!res.headersSent\<close> holds.
\<close>

definition download_catch :: "string \<Rightarrow> response" where
  "download_catch msg =
     failure (if str_includes msg ''No valid download URL'' then 404 else 500)
       (''Download failed: '' @ msg)"

text \<open>
  \<open>find(id === format) || find(id === "nowm") || options[0]\<close>; a found option is an
  object, hence truthy, and only a string \<open>format\<close> can equal an id.
\<close>

definition select_option :: "download_option list \<Rightarrow> query_value option \<Rightarrow> download_option option" where
  "select_option options format =
     (case find_first (\<lambda>opt. Some (QString (opt_id opt)) = format) options of
        Some opt \<Rightarrow> Some opt
      | None \<Rightarrow>
          (case find_first (\<lambda>opt. opt_id opt = ''nowm'') options of
             Some opt \<Rightarrow> Some opt
           | None \<Rightarrow> (case options of [] \<Rightarrow> None | opt # _ \<Rightarrow> Some opt)))"

text \<open>
  \<open>title.replace(/[^a-z0-9]/gi, "_")\<close>: one underscore for each UTF-16 code unit that
  is not an ASCII letter or digit, hence one for a character of two or three bytes and
  two for a character of four.
\<close>

definition replace_non_alnum :: "string \<Rightarrow> string" where
  "replace_non_alnum s =
     concat (map (\<lambda>c. if is_alnum c then [c]
                       else if 128 \<le> code c \<and> code c < 192 then []
                       else if 240 \<le> code c then ''__''
                       else ''_'') s)"

text \<open>The TikTok branch once the metadata is there.\<close>

definition download_tiktok :: "env \<Rightarrow> query_value option \<Rightarrow> VideoMetadata \<Rightarrow> response" where
  "download_tiktok env format metadata =
     (case select_option (md_options metadata) format of
        None \<Rightarrow> download_catch ''No valid download URL found for the selected format.''
      | Some selectedOption \<Rightarrow>
          if \<not> truthy (opt_url selectedOption)
          then download_catch ''No valid download URL found for the selected format.''
          else
            (case axios_stream env (the (opt_url selectedOption)) of
               Rejected e \<Rightarrow> download_catch (message e)
             | Resolved body \<Rightarrow>
                 let ext = or_else (Some (opt_ext selectedOption)) ''mp4'';
                     filename =
                       toLowerCase (replace_non_alnum (md_title metadata)) @ ''.'' @ ext
                 in Download (''attachment; filename='' @ [CHR 0x22] @ filename @ [CHR 0x22])
                      (if opt_hasAudio selectedOption = Some False then ''audio/mpeg''
                       else ''video/mp4'')
                      body))"

text \<open>
  The handler's \<open>try\<close> begins with \<open>req.query.url?.trim()\<close>, before the key is
  compared; what that statement throws goes to the \<open>catch\<close>.
\<close>

definition api_download :: "env \<Rightarrow> request \<Rightarrow> response" where
  "api_download env req =
     (case url_trim (q_url req) of
        Inl typeError \<Rightarrow> download_catch typeError
      | Inr url \<Rightarrow>
          let format = q_format req;
              key = q_key req
          in if API_KEY env \<noteq> [] \<and> key \<noteq> Some (QString (API_KEY env))
             then failure 401 ''Invalid API key.''
             else if \<not> truthy url \<or> \<not> isValidUrl (the url)
             then failure 400 ''Invalid or missing URL parameter.''
             else
               (case extractPlatform (the url) of
                  None \<Rightarrow> failure 400 ''Unsupported platform for download.''
                | Some platform \<Rightarrow>
                    if platform = ''YouTube''
                    then Redirect 302
                           (''https://loader.to/api/download/?url=''
                            @ encodeURIComponent (cleanYouTubeUrl (the url)) @ ''&format=mp4'')
                    else if platform = ''Facebook''
                    then Redirect 302
                           (''https://getmyfb.com/process/?url='' @ encodeURIComponent (the url))
                    else if platform = ''TikTok''
                    then (case getTikTokMetadata env (the url) of
                            Inl msg \<Rightarrow> download_catch msg
                          | Inr metadata \<Rightarrow> download_tiktok env format metadata)
                    else NoResponse))"

section \<open>Vocabulary of the properties\<close>

text \<open>
  A video ID, as the normaliser recognises one in a path: 10 or 11 characters, over
  YouTube's alphabet of letters, digits, \<open>-\<close> and \<open>_\<close>.
\<close>

definition is_video_id_char :: "char \<Rightarrow> bool" where
  "is_video_id_char c = (is_alnum c \<or> c = CHR ''-'' \<or> c = CHR ''_'')"

definition is_video_id :: "string \<Rightarrow> bool" where
  "is_video_id s = ((length s = 10 \<or> length s = 11) \<and> list_all is_video_id_char s)"

text \<open>
  The fallback chain in the specification's words: the option whose id is the requested
  format, else the option with id \<open>nowm\<close>, else the first option.
\<close>

definition fallback_chain :: "download_option list \<Rightarrow> query_value option \<Rightarrow> download_option option" where
  "fallback_chain options format =
     (if \<exists>opt \<in> set options. Some (QString (opt_id opt)) = format
      then Some (hd (filter (\<lambda>opt. Some (QString (opt_id opt)) = format) options))
      else if \<exists>opt \<in> set options. opt_id opt = ''nowm''
      then Some (hd (filter (\<lambda>opt. opt_id opt = ''nowm'') options))
      else if options = [] then None
      else Some (hd options))"

subsection \<open>Sample inputs\<close>

definition example_oembed :: oembed where
  "example_oembed =
     \<lparr>oe_error = None, oe_title = Some ''A clip'', oe_author_name = Some ''Someone'',
      oe_thumbnail_url = None\<rparr>"

definition example_tiktok_data :: tiktok_data where
  "example_tiktok_data =
     \<lparr>td_id = Some ''7'', td_title = Some ''Dance'', td_author = None,
      td_duration = Some (Num 65), td_cover = None, td_images = None,
      td_play = Some ''https://cdn.example/nowm.mp4'',
      td_wmplay = Some ''https://cdn.example/wm.mp4'', td_play_count = Some 10\<rparr>"

definition example_env :: env where
  "example_env =
     \<lparr>API_KEY = ''secret'',
      axios_get = (\<lambda>_. Resolved example_oembed),
      axios_post =
        (\<lambda>_ _. Resolved \<lparr>tr_code = Some (Num 0), tr_msg = None,
                           tr_data = Some example_tiktok_data\<rparr>),
      axios_stream = (\<lambda>_. Resolved [1, 2, 3]),
      Date_now = 1700000000000\<rparr>"

text \<open>A resolver answer whose payload has neither link.\<close>

definition example_bare_data :: tiktok_data where
  "example_bare_data = example_tiktok_data\<lparr>td_play := None, td_wmplay := None\<rparr>"

definition example_bare_env :: env where
  "example_bare_env =
     example_env\<lparr>axios_post :=
       (\<lambda>_ _. Resolved \<lparr>tr_code = Some (Num 0), tr_msg = None,
                          tr_data = Some example_bare_data\<rparr>)\<rparr>"

text \<open>A resolver answer with the same payload and a status code other than zero.\<close>

definition example_refused_env :: env where
  "example_refused_env =
     example_env\<lparr>axios_post :=
       (\<lambda>_ _. Resolved \<lparr>tr_code = Some (Num (- 1)), tr_msg = None,
                          tr_data = Some example_bare_data\<rparr>)\<rparr>"

text \<open>An oEmbed service that times out.\<close>

definition example_timeout_env :: env where
  "example_timeout_env =
     example_env\<lparr>axios_get :=
       (\<lambda>_. Rejected \<lparr>message = ''timeout of 8000ms exceeded'', response_error = None\<rparr>)\<rparr>"

definition example_request :: request where
  "example_request =
     \<lparr>q_url = Some (QString ''https://vm.tiktok.com/xyz''), q_format = Some (QString ''hd''),
      q_key = Some (QString ''secret'')\<rparr>"

definition example_facebook_request :: request where
  "example_facebook_request =
     \<lparr>q_url = Some (QString ''https://www.facebook.com/watch/123''), q_format = None,
      q_key = None\<rparr>"

text \<open>
  \<open>GET /api/download?url=a&url=b&key=guess\<close>: the \<open>url\<close> parameter given twice,
  with a wrong key.
\<close>

definition example_repeated_url_request :: request where
  "example_repeated_url_request =
     \<lparr>q_url = Some (QArray [QString ''a'', QString ''b'']), q_format = None,
      q_key = Some (QString ''guess'')\<rparr>"

section \<open>Properties\<close>

subsection \<open>Auxiliary facts\<close>

lemmas char_class_defs =
  code_def is_upper_def is_lower_def is_digit_def is_alpha_def is_alnum_def is_hex_def
  is_c0_or_space_def is_tab_or_newline_def is_scheme_char_def is_slash_def authority_end_def
  segment_end_def path_end_def c0_control_set_def query_set_def special_query_set_def
  path_set_def forbidden_host_char_def forbidden_domain_char_def

lemma str_includes_sublist: "str_includes s d = sublist d s"
  by (induction s) (auto simp: sublist_Cons_right)

lemma find_first_filter:
  "find_first p xs = (if \<exists>x \<in> set xs. p x then Some (hd (filter p xs)) else None)"
  by (induction xs) auto

lemma split_where_none: "\<forall>c \<in> set s. \<not> is_sep c \<Longrightarrow> split_where is_sep s = [s]"
  by (induction s) auto

lemma percent_encode_none: "\<forall>c \<in> set s. \<not> in_set c \<Longrightarrow> percent_encode in_set s = s"
  by (induction s) (auto simp: percent_encode_def)

lemma percent_encode_append:
  "percent_encode in_set (a @ b) = percent_encode in_set a @ percent_encode in_set b"
  by (simp add: percent_encode_def)

lemma percent_decode_plain:
  "\<forall>c \<in> set s. c \<noteq> CHR ''%'' \<Longrightarrow> percent_decode s = map code s"
  by (induction s) auto

lemma utf8_decode_ascii:
  "\<forall>c \<in> set s. code c < 128 \<Longrightarrow> map char_of (utf8_decode (map code s) 0 128 191 []) = s"
  by (induction s) (auto simp: code_def)

lemma js_length_ascii: "\<forall>c \<in> set s. code c < 128 \<Longrightarrow> js_length s = length s"
  by (induction s) (auto simp: js_length_def)

lemma clean_input_id:
  assumes "s \<noteq> []" "\<not> is_c0_or_space (hd s)" "\<not> is_c0_or_space (last s)"
    and "\<forall>c \<in> set s. \<not> is_tab_or_newline c"
  shows "clean_input s = s"
proof -
  have 1: "dropWhile is_c0_or_space s = s"
    using assms(1,2) by (cases s) auto
  have 2: "dropWhile is_c0_or_space (rev s) = rev s"
    using assms(1,3) by (cases "rev s") (auto simp: last_rev[symmetric] simp del: last_rev)
  show ?thesis
    using assms(4) by (simp add: clean_input_def 1 2)
qed

lemma parse_scheme_SomeD:
  assumes "parse_scheme t = Some (sch, rest)"
  shows "\<exists>w. t = w @ CHR '':'' # rest \<and> map ascii_lower w = sch"
proof -
  from assms have d: "dropWhile is_scheme_char t = CHR '':'' # rest"
    and s: "sch = map ascii_lower (takeWhile is_scheme_char t)"
    by (auto simp: parse_scheme_def split: list.splits if_splits)
  have "t = takeWhile is_scheme_char t @ dropWhile is_scheme_char t"
    by simp
  with d s show ?thesis by metis
qed

lemma new_URL_SomeD:
  assumes "new_URL s = Some u"
  shows "\<exists>sch rest. parse_scheme (clean_input s) = Some (sch, rest) \<and> protocol u = sch @ '':''"
  using assms by (auto simp: new_URL_def Let_def split: option.splits prod.splits)

lemma isValidUrl_nonempty: "isValidUrl s \<Longrightarrow> s \<noteq> []"
  by (auto simp: isValidUrl_def new_URL_def clean_input_def parse_scheme_def)

subsection \<open>Duration formatter\<close>

text \<open>
  C1, as the specification states it, fails: \<open>formatDuration(0)\<close> is not \<open>"0:00"\<close> and
  \<open>formatDuration(65)\<close> is not \<open>"1:05"\<close>. Zero is falsy, so the guard \<open>!seconds\<close>
  answers \<open>"Unknown"\<close>; and the minutes are padded to two digits whenever no hours
  component precedes them, as the function's own comment (\<open>MM:SS\<close>) says.
\<close>

theorem formatDuration_examples_counterexample:
  "formatDuration (Some (Num 0)) \<noteq> ''0:00'' \<and> formatDuration (Some (Num 65)) \<noteq> ''1:05''"
  by code_simp

text \<open>
  C1, amended: \<open>formatDuration\<close> returns \<open>"Unknown"\<close> at 0, \<open>"01:05"\<close> at 65,
  \<open>"1:01:01"\<close> at 3661, and \<open>"Unknown"\<close> at -5 and at \<open>NaN\<close>.
\<close>

theorem formatDuration_examples:
  "formatDuration (Some (Num 0)) = ''Unknown''
   \<and> formatDuration (Some (Num 65)) = ''01:05''
   \<and> formatDuration (Some (Num 3661)) = ''1:01:01''
   \<and> formatDuration (Some (Num (- 5))) = ''Unknown''
   \<and> formatDuration (Some NaN) = ''Unknown''"
  by code_simp

subsection \<open>URL classifier\<close>

text \<open>
  C3, as the specification states it, fails: the URL parser lower-cases the scheme,
  strips leading spaces and does not insist on the two slashes, so \<open>isValidUrl\<close> accepts
  strings that begin with neither \<open>http://\<close> nor \<open>https://\<close>.
\<close>

theorem isValidUrl_prefix_counterexample:
  "isValidUrl ''HTTP://example.com''
   \<and> \<not> prefix ''http://'' ''HTTP://example.com'' \<and> \<not> prefix ''https://'' ''HTTP://example.com''
   \<and> isValidUrl '' http://example.com''
   \<and> \<not> prefix ''http://'' '' http://example.com'' \<and> \<not> prefix ''https://'' '' http://example.com''
   \<and> isValidUrl ''http:example.com''
   \<and> \<not> prefix ''http://'' ''http:example.com'' \<and> \<not> prefix ''https://'' ''http:example.com''"
  by code_simp

text \<open>
  C3, amended: for every string that, once its leading and trailing control characters
  and spaces are stripped and its tabs and newlines removed, does not begin with
  \<open>http:\<close> or \<open>https:\<close> in any letter case, \<open>isValidUrl\<close> returns false.
\<close>

theorem isValidUrl_scheme:
  assumes "\<not> prefix ''http:'' (map ascii_lower (clean_input s))"
    and "\<not> prefix ''https:'' (map ascii_lower (clean_input s))"
  shows "isValidUrl s = False"
proof (rule ccontr)
  assume "isValidUrl s \<noteq> False"
  then obtain u where u: "new_URL s = Some u"
    and p: "protocol u = ''http:'' \<or> protocol u = ''https:''"
    by (auto simp: isValidUrl_def split: option.splits)
  from new_URL_SomeD[OF u] obtain sch rest
    where ps: "parse_scheme (clean_input s) = Some (sch, rest)"
      and pr: "protocol u = sch @ '':''"
    by blast
  from parse_scheme_SomeD[OF ps] obtain w where
    w: "clean_input s = w @ CHR '':'' # rest" "map ascii_lower w = sch"
    by blast
  have "map ascii_lower (clean_input s) = sch @ '':'' @ map ascii_lower rest"
    using w by (simp add: ascii_lower_def char_class_defs)
  with p pr assms show False
    by (auto simp: prefix_def)
qed

theorem isValidUrl_scheme_witness:
  "\<not> prefix ''http:'' (map ascii_lower (clean_input ''www.youtube.com/watch?v=dQw4w9WgXcQ''))
   \<and> \<not> prefix ''https:'' (map ascii_lower (clean_input ''www.youtube.com/watch?v=dQw4w9WgXcQ''))
   \<and> isValidUrl ''www.youtube.com/watch?v=dQw4w9WgXcQ'' = False"
proof -
  have 1: "\<not> prefix ''http:'' (map ascii_lower (clean_input ''www.youtube.com/watch?v=dQw4w9WgXcQ''))"
    by code_simp
  have 2: "\<not> prefix ''https:'' (map ascii_lower (clean_input ''www.youtube.com/watch?v=dQw4w9WgXcQ''))"
    by code_simp
  show ?thesis
    using 1 2 isValidUrl_scheme[OF 1 2] by simp
qed

text \<open>
  C9: for every URL that parses, \<open>extractPlatform\<close> lower-cases the hostname and
  returns the first platform, in the order YouTube, TikTok, Facebook, one of whose
  domain entries occurs in the lower-cased hostname, and no match when none does (as
  it does when the URL does not parse). It returns \<open>TikTok\<close> for
  \<open>https://vm.tiktok.com/xyz\<close> and no match for \<open>https://example.com\<close>. The
  lower-casing is the function's own where the parser keeps the letter case of the
  host, as in \<open>foo://YouTube.COM/x\<close>.
\<close>

theorem extractPlatform_table_order:
  "extractPlatform url =
     (case new_URL url of
        None \<Rightarrow> None
      | Some u \<Rightarrow>
          if \<exists>d \<in> {''youtube.com'', ''www.youtube.com'', ''youtu.be'', ''m.youtube.com''}.
               sublist d (map ascii_lower (hostname u))
          then Some ''YouTube''
          else if \<exists>d \<in> {''tiktok.com'', ''www.tiktok.com'', ''vm.tiktok.com''}.
                    sublist d (map ascii_lower (hostname u))
          then Some ''TikTok''
          else if \<exists>d \<in> {''facebook.com'', ''www.facebook.com'', ''m.facebook.com'', ''fb.watch''}.
                    sublist d (map ascii_lower (hostname u))
          then Some ''Facebook''
          else None)
   \<and> extractPlatform ''https://vm.tiktok.com/xyz'' = Some ''TikTok''
   \<and> extractPlatform ''https://example.com'' = None"
proof -
  have a: "extractPlatform ''https://vm.tiktok.com/xyz'' = Some ''TikTok''"
    by code_simp
  have b: "extractPlatform ''https://example.com'' = None"
    by code_simp
  show ?thesis
    using a b
    by (simp add: extractPlatform_def PLATFORM_DOMAINS_def str_includes_sublist toLowerCase_def
        split: option.splits)
qed

theorem extractPlatform_table_order_witness:
  "new_URL ''foo://YouTube.COM/x'' =
     Some \<lparr>protocol = ''foo:'', hostname = ''YouTube.COM'', pathname = ''/x'', searchParams = []\<rparr>
   \<and> \<not> sublist ''youtube.com'' ''YouTube.COM''
   \<and> extractPlatform ''foo://YouTube.COM/x'' = Some ''YouTube''
   \<and> new_URL ''https://M.Facebook.com/watch'' =
       Some \<lparr>protocol = ''https:'', hostname = ''m.facebook.com'', pathname = ''/watch'',
             searchParams = []\<rparr>
   \<and> extractPlatform ''https://M.Facebook.com/watch'' = Some ''Facebook''
   \<and> new_URL ''vm.tiktok.com/xyz'' = None
   \<and> extractPlatform ''vm.tiktok.com/xyz'' = None"
proof -
  let ?y = "\<lparr>protocol = ''foo:'', hostname = ''YouTube.COM'', pathname = ''/x'',
             searchParams = []\<rparr>"
  let ?f = "\<lparr>protocol = ''https:'', hostname = ''m.facebook.com'', pathname = ''/watch'',
             searchParams = []\<rparr>"
  have py: "new_URL ''foo://YouTube.COM/x'' = Some ?y"
    by code_simp
  have ly: "map ascii_lower (hostname ?y) = ''youtube.com''"
    by code_simp
  have sy: "sublist ''youtube.com'' ''youtube.com''" "\<not> sublist ''youtube.com'' ''YouTube.COM''"
    by code_simp+
  have pf: "new_URL ''https://M.Facebook.com/watch'' = Some ?f"
    by code_simp
  have lf: "map ascii_lower (hostname ?f) = ''m.facebook.com''"
    by code_simp
  have y: "\<not> sublist ''youtube.com'' ''m.facebook.com''" "\<not> sublist ''www.youtube.com'' ''m.facebook.com''"
    "\<not> sublist ''youtu.be'' ''m.facebook.com''" "\<not> sublist ''m.youtube.com'' ''m.facebook.com''"
    by code_simp+
  have t: "\<not> sublist ''tiktok.com'' ''m.facebook.com''" "\<not> sublist ''www.tiktok.com'' ''m.facebook.com''"
    "\<not> sublist ''vm.tiktok.com'' ''m.facebook.com''"
    by code_simp+
  have f: "sublist ''facebook.com'' ''m.facebook.com''"
    by code_simp
  have n: "new_URL ''vm.tiktok.com/xyz'' = None"
    by code_simp
  have 1: "extractPlatform ''foo://YouTube.COM/x'' = Some ''YouTube''"
    using extractPlatform_table_order[where url = "''foo://YouTube.COM/x''", THEN conjunct1]
    unfolding py option.case ly using sy(1) by simp
  have 2: "extractPlatform ''https://M.Facebook.com/watch'' = Some ''Facebook''"
    using extractPlatform_table_order[where url = "''https://M.Facebook.com/watch''",
        THEN conjunct1]
    unfolding pf option.case lf using y t f by simp
  have 3: "extractPlatform ''vm.tiktok.com/xyz'' = None"
    using extractPlatform_table_order[where url = "''vm.tiktok.com/xyz''", THEN conjunct1]
    unfolding n option.case by simp
  show ?thesis
    using py sy(2) pf n 1 2 3 by simp
qed

subsection \<open>YouTube normaliser\<close>

lemma video_id_char_facts:
  assumes "is_video_id_char c"
  shows "\<not> is_tab_or_newline c" "\<not> is_c0_or_space c" "\<not> is_slash c" "\<not> path_end c"
    "\<not> segment_end True c" "c \<noteq> CHR ''#''" "c \<noteq> CHR ''&''" "c \<noteq> CHR ''=''" "c \<noteq> CHR ''+''"
    "c \<noteq> CHR ''%''" "c \<noteq> CHR ''/''" "\<not> path_set c" "\<not> special_query_set c" "code c < 128"
    "c \<noteq> CHR '' ''"
  using assms by (auto simp: is_video_id_char_def char_class_defs)

lemma form_encode_video_id: "list_all is_video_id_char s \<Longrightarrow> form_encode s = s"
  by (induction s) (auto simp: form_encode_def is_video_id_char_def char_class_defs)

lemma form_decode_video_id:
  assumes "list_all is_video_id_char s"
  shows "form_decode s = s"
proof -
  have a: "\<forall>c \<in> set s. is_video_id_char c"
    using assms by (simp add: list_all_iff)
  have "map (\<lambda>c. if c = CHR ''+'' then CHR '' '' else c) s = s"
    using a video_id_char_facts(9) by (induction s) auto
  moreover have "percent_decode s = map code s"
    using a video_id_char_facts(10) by (intro percent_decode_plain) blast
  moreover have "map char_of (utf8_decode (map code s) 0 128 191 []) = s"
    using a video_id_char_facts(14) by (intro utf8_decode_ascii) blast
  ultimately show ?thesis
    by (simp add: form_decode_def percent_decode_string_def)
qed

lemma parse_scheme_https: "parse_scheme (''https:'' @ r) = Some (''https'', r)"
  by (simp add: parse_scheme_def ascii_lower_def char_class_defs)

lemma parse_authority_youtu_be: "parse_authority True ''youtu.be'' = Some ''youtu.be''"
  by code_simp

lemma parse_authority_youtube_com: "parse_authority True ''youtube.com'' = Some ''youtube.com''"
  by code_simp

lemma https_special: "''https'' \<in> set special_schemes" "''https'' \<noteq> ''file''"
  by (simp_all add: special_schemes_def)

lemma parse_query_empty: "parse_query (percent_encode in_set []) = []"
  by (simp add: parse_query_def percent_encode_def split_def)

text \<open>What the URL parser makes of the three variant forms.\<close>

lemma new_URL_youtu_be:
  assumes "is_video_id v"
  shows "new_URL (''https://youtu.be/'' @ v) =
           Some \<lparr>protocol = ''https:'', hostname = ''youtu.be'', pathname = ''/'' @ v,
                 searchParams = []\<rparr>"
proof -
  note f = video_id_char_facts
  have a: "\<forall>c \<in> set v. is_video_id_char c" and n: "v \<noteq> []"
    and l: "length v = 10 \<or> length v = 11"
    using assms by (auto simp: is_video_id_def list_all_iff)
  have c: "clean_input (''https://youtu.be/'' @ v) = ''https:'' @ ''//youtu.be/'' @ v"
    using a n f(1,2) by (subst clean_input_id) (auto simp: char_class_defs)
  have tw: "takeWhile (\<lambda>c. \<not> path_end c) v = v"
    using a f(4) by (simp add: takeWhile_eq_all_conv)
  have dw: "dropWhile (\<lambda>c. \<not> path_end c) v = []"
    using a f(4) by simp
  have body: "takeWhile (\<lambda>c. \<not> path_end c) (''//youtu.be/'' @ v) = ''//youtu.be/'' @ v"
    "dropWhile (\<lambda>c. \<not> path_end c) (''//youtu.be/'' @ v) = []"
    using tw dw by (simp_all add: path_end_def)
  have sp: "split_where (segment_end True) v = [v]"
    using a f(5) by (simp add: split_where_none)
  have pe: "percent_encode path_set v = v"
    using a f(12) by (simp add: percent_encode_none)
  have nd: "\<not> double_dot v" "\<not> single_dot v"
    using l by (auto simp: double_dot_def single_dot_def dest: arg_cong[where f=length])
  have pp: "path_start True False (CHR ''/'' # v) = CHR ''/'' # v"
    by (simp add: path_start_def path_state_def is_slash_def sp pe nd)
  have ps: "parse_special (''//youtu.be/'' @ v) = Some (''youtu.be'', CHR ''/'' # v)"
    using pp by (simp add: parse_special_def is_slash_def authority_end_def
        parse_authority_youtu_be)
  show ?thesis
    unfolding new_URL_def c parse_scheme_https
    by (simp add: Let_def https_special body ps parse_query_empty del: append.simps)
qed

lemma new_URL_shorts:
  assumes "is_video_id v"
  shows "new_URL (''https://youtube.com/shorts/'' @ v) =
           Some \<lparr>protocol = ''https:'', hostname = ''youtube.com'',
                 pathname = ''/shorts/'' @ v, searchParams = []\<rparr>"
proof -
  note f = video_id_char_facts
  have a: "\<forall>c \<in> set v. is_video_id_char c" and n: "v \<noteq> []"
    and l: "length v = 10 \<or> length v = 11"
    using assms by (auto simp: is_video_id_def list_all_iff)
  have c: "clean_input (''https://youtube.com/shorts/'' @ v)
             = ''https:'' @ ''//youtube.com/shorts/'' @ v"
    using a n f(1,2) by (subst clean_input_id) (auto simp: char_class_defs)
  have tw: "takeWhile (\<lambda>c. \<not> path_end c) v = v"
    using a f(4) by (simp add: takeWhile_eq_all_conv)
  have dw: "dropWhile (\<lambda>c. \<not> path_end c) v = []"
    using a f(4) by simp
  have body: "takeWhile (\<lambda>c. \<not> path_end c) (''//youtube.com/shorts/'' @ v)
                = ''//youtube.com/shorts/'' @ v"
    "dropWhile (\<lambda>c. \<not> path_end c) (''//youtube.com/shorts/'' @ v) = []"
    using tw dw by (simp_all add: path_end_def)
  have sp: "split_where (segment_end True) v = [v]"
    using a f(5) by (simp add: split_where_none)
  have sp2: "split_where (segment_end True) (''shorts/'' @ v) = [''shorts'', v]"
    by (simp add: sp segment_end_def)
  have pe: "percent_encode path_set v = v"
    using a f(12) by (simp add: percent_encode_none)
  have pe2: "percent_encode path_set ''shorts'' = ''shorts''"
    by code_simp
  have nd: "\<not> double_dot v" "\<not> single_dot v"
    using l by (auto simp: double_dot_def single_dot_def dest: arg_cong[where f=length])
  have nd2: "\<not> double_dot ''shorts''" "\<not> single_dot ''shorts''"
    by code_simp+
  have pp: "path_start True False (''/shorts/'' @ v) = ''/shorts/'' @ v"
    using sp2 by (simp add: path_start_def path_state_def is_slash_def pe pe2 nd nd2)
  have ps: "parse_special (''//youtube.com/shorts/'' @ v)
              = Some (''youtube.com'', ''/shorts/'' @ v)"
    using pp by (simp add: parse_special_def is_slash_def authority_end_def
        parse_authority_youtube_com)
  show ?thesis
    unfolding new_URL_def c parse_scheme_https
    by (simp add: Let_def https_special body ps parse_query_empty del: append.simps)
qed

lemma new_URL_watch:
  assumes "is_video_id v"
  shows "new_URL (''https://youtube.com/watch?v='' @ v) =
           Some \<lparr>protocol = ''https:'', hostname = ''youtube.com'',
                 pathname = ''/watch'', searchParams = [(''v'', v)]\<rparr>"
proof -
  note f = video_id_char_facts
  have a: "\<forall>c \<in> set v. is_video_id_char c" and n: "v \<noteq> []"
    using assms by (auto simp: is_video_id_def list_all_iff)
  have c: "clean_input (''https://youtube.com/watch?v='' @ v)
             = ''https:'' @ ''//youtube.com/watch?v='' @ v"
    using a n f(1,2) by (subst clean_input_id) (auto simp: char_class_defs)
  have body: "takeWhile (\<lambda>c. \<not> path_end c) (''//youtube.com/watch?v='' @ v)
                = ''//youtube.com/watch''"
    "dropWhile (\<lambda>c. \<not> path_end c) (''//youtube.com/watch?v='' @ v) = ''?v='' @ v"
    by (simp_all add: path_end_def)
  have tw: "takeWhile (\<lambda>c. c \<noteq> CHR ''#'') (''v='' @ v) = ''v='' @ v"
    using a f(6) by (simp add: takeWhile_eq_all_conv)
  have pe0: "percent_encode special_query_set ''v='' = ''v=''"
    by code_simp
  have pe1: "percent_encode special_query_set v = v"
    using a f(13) by (simp add: percent_encode_none)
  have pe: "percent_encode special_query_set (''v='' @ v) = ''v='' @ v"
    using pe0 pe1 percent_encode_append[of special_query_set "''v=''" v] by simp
  have sp: "split CHR ''&'' (''v='' @ v) = [''v='' @ v]"
    using a f(7) by (simp add: split_def split_where_none)
  have fd: "form_decode v = v"
    using assms by (simp add: is_video_id_def form_decode_video_id)
  have fv: "form_decode ''v'' = ''v''"
    by code_simp
  have pq: "parse_query (''v='' @ v) = [(''v'', v)]"
    unfolding parse_query_def sp using fd fv by simp
  have ps: "parse_special ''//youtube.com/watch'' = Some (''youtube.com'', ''/watch'')"
    by code_simp
  have q: "(if prefix ''?'' (''?v='' @ v)
            then takeWhile (\<lambda>c. c \<noteq> CHR ''#'') (tl (''?v='' @ v)) else []) = ''v='' @ v"
    using tw by simp
  show ?thesis
    unfolding new_URL_def c parse_scheme_https
    by (simp add: Let_def https_special body ps q tw pe pq del: append.simps)
qed

text \<open>
  C4: for every video ID \<open>v\<close>, \<open>cleanYouTubeUrl\<close> maps \<open>https://youtu.be/v\<close>,
  \<open>https://youtube.com/watch?v=v\<close> and \<open>https://youtube.com/shorts/v\<close> to the one
  canonical \<open>https://www.youtube.com/watch?v=v\<close>.
\<close>

theorem cleanYouTubeUrl_canonical:
  assumes "is_video_id v"
  shows "cleanYouTubeUrl (''https://youtu.be/'' @ v) = ''https://www.youtube.com/watch?v='' @ v
       \<and> cleanYouTubeUrl (''https://youtube.com/watch?v='' @ v)
           = ''https://www.youtube.com/watch?v='' @ v
       \<and> cleanYouTubeUrl (''https://youtube.com/shorts/'' @ v)
           = ''https://www.youtube.com/watch?v='' @ v"
proof -
  note f = video_id_char_facts
  have a: "\<forall>c \<in> set v. is_video_id_char c" and n: "v \<noteq> []"
    and l: "10 \<le> length v" "length v \<le> 11" and la: "list_all is_video_id_char v"
    using assms by (auto simp: is_video_id_def list_all_iff)
  have jl: "js_length v = length v"
    using a f(14) by (intro js_length_ascii) blast
  have j0: "js_length [] = 0" "js_length ''shorts'' = 6"
    by code_simp+
  have w: "watch_url v = ''https://www.youtube.com/watch?v='' @ v"
  proof -
    have "form_encode ''v'' = ''v''"
      by code_simp
    then show ?thesis
      by (simp add: watch_url_def form_encode_video_id[OF la])
  qed
  have sp: "split_where (\<lambda>c. c = CHR ''/'') v = [v]"
    using a f(11) by (simp add: split_where_none)
  have i1: "str_includes ''youtu.be'' ''youtu.be''"
    by code_simp
  have i2: "\<not> str_includes ''youtube.com'' ''youtu.be''"
    by code_simp
  have i3: "\<not> str_includes ''/watch'' ''/shorts/''"
    by code_simp
  have i4: "str_includes ''youtube.com'' ''youtube.com''"
    by code_simp
  have s1: "split CHR ''/'' (''/'' @ v) = [[], v]"
    by (simp add: split_def sp)
  have s3: "split CHR ''/'' (''/shorts/'' @ v) = [[], ''shorts'', v]"
    by (simp add: split_def sp)
  have 1: "cleanYouTubeUrl (''https://youtu.be/'' @ v) = ''https://www.youtube.com/watch?v='' @ v"
    unfolding cleanYouTubeUrl_def new_URL_youtu_be[OF assms]
    using n l by (simp add: i1 s1 j0 jl w truthy_def del: append.simps)
  have 2: "cleanYouTubeUrl (''https://youtube.com/watch?v='' @ v)
             = ''https://www.youtube.com/watch?v='' @ v"
    unfolding cleanYouTubeUrl_def new_URL_watch[OF assms]
    using n by (simp add: i2 i3 i4 truthy_def searchParams_get_def w)
  have i5: "str_includes (''/shorts/'' @ v) ''/shorts/''"
    by simp
  have 3: "cleanYouTubeUrl (''https://youtube.com/shorts/'' @ v)
             = ''https://www.youtube.com/watch?v='' @ v"
    unfolding cleanYouTubeUrl_def new_URL_shorts[OF assms]
    using n l by (simp add: i5 s3 j0 jl w truthy_def del: append.simps str_includes.simps)
  show ?thesis
    using 1 2 3 by simp
qed

theorem cleanYouTubeUrl_canonical_witness:
  "is_video_id ''dQw4w9WgXcQ''
   \<and> cleanYouTubeUrl ''https://youtu.be/dQw4w9WgXcQ'' = ''https://www.youtube.com/watch?v=dQw4w9WgXcQ''
   \<and> cleanYouTubeUrl ''https://youtube.com/watch?v=dQw4w9WgXcQ''
       = ''https://www.youtube.com/watch?v=dQw4w9WgXcQ''
   \<and> cleanYouTubeUrl ''https://youtube.com/shorts/dQw4w9WgXcQ''
       = ''https://www.youtube.com/watch?v=dQw4w9WgXcQ''"
proof -
  have h: "is_video_id ''dQw4w9WgXcQ''"
    by code_simp
  show ?thesis
    using h cleanYouTubeUrl_canonical[OF h] by simp
qed

subsection \<open>Metadata providers\<close>

lemma tiktok_options_empty:
  "\<not> truthy (td_play d) \<Longrightarrow> \<not> truthy (td_wmplay d) \<Longrightarrow> tiktok_options d = []"
  by (simp add: tiktok_options_def)

lemma tiktok_options_urls: "\<forall>opt \<in> set (tiktok_options d). truthy (opt_url opt)"
  by (auto simp: tiktok_options_def)

lemma getTikTokMetadata_options:
  "getTikTokMetadata env url = Inr md \<Longrightarrow> md_options md \<noteq> []"
  by (auto simp: getTikTokMetadata_def Let_def split: axios_result.splits if_splits)

lemma getTikTokMetadata_urls:
  "getTikTokMetadata env url = Inr md \<Longrightarrow> \<forall>opt \<in> set (md_options md). truthy (opt_url opt)"
  using tiktok_options_urls
  by (auto simp: getTikTokMetadata_def Let_def split: axios_result.splits if_splits)

lemma example_tiktok_metadata:
  "getTikTokMetadata example_env u =
     Inr \<lparr>md_id = ''7'', md_title = ''Dance'', md_uploader = ''TikTok User'',
          md_duration = ''01:05'', md_thumbnail = None, md_description = ''Dance'',
          md_viewCount = Some 10, md_uploadDate = None,
          md_options =
            [\<lparr>opt_id = ''nowm'', opt_format_id = Some ''nowm'', opt_label = ''HD (No Watermark)'',
              opt_ext = ''mp4'', opt_quality = ''best'',
              opt_url = Some ''https://cdn.example/nowm.mp4'', opt_hasAudio = None\<rparr>,
             \<lparr>opt_id = ''wm'', opt_format_id = Some ''wm'',
              opt_label = ''Standard (With Watermark)'', opt_ext = ''mp4'',
              opt_quality = ''standard'', opt_url = Some ''https://cdn.example/wm.mp4'',
              opt_hasAudio = None\<rparr>],
          md_platform = ''TikTok''\<rparr>"
proof -
  have d: "formatDuration (Some (Num 65)) = ''01:05''"
    by code_simp
  show ?thesis
    by (simp add: getTikTokMetadata_def example_env_def example_tiktok_data_def
        tiktok_options_def truthy_def or_else_def or_null_def d)
qed

text \<open>
  C2, as the specification states it, fails: on a successful oEmbed answer the
  Facebook provider returns three options, not four.
\<close>

theorem getFacebookMetadata_four_options_counterexample:
  "\<not> isl (getFacebookMetadata example_env ''https://www.facebook.com/watch/123'')
   \<and> length (md_options (projr (getFacebookMetadata example_env
                                  ''https://www.facebook.com/watch/123''))) \<noteq> 4"
  by (simp add: getFacebookMetadata_def example_env_def example_oembed_def truthy_def)

text \<open>
  C2, amended: on a successful oEmbed response with no error field, the Facebook
  provider returns a metadata record whose options are exactly the three hardcoded
  ones, with ids \<open>best\<close>, \<open>sd\<close> and \<open>audio\<close> in that order, none of which carries a
  resolved link.
\<close>

theorem getFacebookMetadata_options:
  assumes "axios_get env (NOEMBED_API_URL @ ''?url='' @ encodeURIComponent url) = Resolved d"
    and "\<not> truthy (oe_error d)"
  shows "\<exists>md. getFacebookMetadata env url = Inr md
           \<and> map opt_id (md_options md) = [''best'', ''sd'', ''audio'']
           \<and> length (md_options md) = 3
           \<and> (\<forall>opt \<in> set (md_options md). opt_url opt = None)"
  using assms by (simp add: getFacebookMetadata_def external_option_def)

theorem getFacebookMetadata_options_witness:
  "axios_get example_env
       (NOEMBED_API_URL @ ''?url='' @ encodeURIComponent ''https://www.facebook.com/watch/123'')
     = Resolved example_oembed
   \<and> \<not> truthy (oe_error example_oembed)
   \<and> (\<exists>md. getFacebookMetadata example_env ''https://www.facebook.com/watch/123'' = Inr md
           \<and> map opt_id (md_options md) = [''best'', ''sd'', ''audio'']
           \<and> length (md_options md) = 3
           \<and> (\<forall>opt \<in> set (md_options md). opt_url opt = None))"
proof -
  have 1: "axios_get example_env
       (NOEMBED_API_URL @ ''?url='' @ encodeURIComponent ''https://www.facebook.com/watch/123'')
     = Resolved example_oembed"
    by (simp add: example_env_def)
  have 2: "\<not> truthy (oe_error example_oembed)"
    by (simp add: example_oembed_def truthy_def)
  show ?thesis
    using 1 2 getFacebookMetadata_options[OF 1 2] by blast
qed

text \<open>
  C8: a metadata record returned by the YouTube, TikTok or Facebook provider has at
  least one option; and the TikTok provider, the only one whose options depend on the
  upstream answer, fails when that answer would leave it with none.
\<close>

theorem providers_options_nonempty:
  "(getYouTubeMetadata env url = Inr md \<longrightarrow> md_options md \<noteq> [])
   \<and> (getTikTokMetadata env url = Inr md \<longrightarrow> md_options md \<noteq> [])
   \<and> (getFacebookMetadata env url = Inr md \<longrightarrow> md_options md \<noteq> [])
   \<and> (\<forall>r d. axios_post env TIKTOK_API_URL url = Resolved r \<and> tr_data r = Some d
              \<and> tiktok_options d = []
        \<longrightarrow> isl (getTikTokMetadata env url))"
proof (intro conjI)
  show "getYouTubeMetadata env url = Inr md \<longrightarrow> md_options md \<noteq> []"
    by (auto simp: getYouTubeMetadata_def split: option.splits axios_result.splits if_splits)
  show "getTikTokMetadata env url = Inr md \<longrightarrow> md_options md \<noteq> []"
    using getTikTokMetadata_options by blast
  show "getFacebookMetadata env url = Inr md \<longrightarrow> md_options md \<noteq> []"
    by (auto simp: getFacebookMetadata_def split: axios_result.splits if_splits)
  show "\<forall>r d. axios_post env TIKTOK_API_URL url = Resolved r \<and> tr_data r = Some d
              \<and> tiktok_options d = []
        \<longrightarrow> isl (getTikTokMetadata env url)"
    by (auto simp: getTikTokMetadata_def)
qed

theorem providers_options_nonempty_witness:
  "\<not> isl (getYouTubeMetadata example_env ''https://www.youtube.com/watch?v=dQw4w9WgXcQ'')
   \<and> md_options (projr (getYouTubeMetadata example_env
                          ''https://www.youtube.com/watch?v=dQw4w9WgXcQ'')) \<noteq> []
   \<and> \<not> isl (getTikTokMetadata example_env ''https://vm.tiktok.com/xyz'')
   \<and> md_options (projr (getTikTokMetadata example_env ''https://vm.tiktok.com/xyz'')) \<noteq> []
   \<and> \<not> isl (getFacebookMetadata example_env ''https://www.facebook.com/watch/123'')
   \<and> md_options (projr (getFacebookMetadata example_env
                          ''https://www.facebook.com/watch/123'')) \<noteq> []
   \<and> tiktok_options example_bare_data = []
   \<and> isl (getTikTokMetadata example_bare_env ''https://vm.tiktok.com/xyz'')"
proof -
  let ?y = "''https://www.youtube.com/watch?v=dQw4w9WgXcQ''"
  let ?t = "''https://vm.tiktok.com/xyz''"
  let ?f = "''https://www.facebook.com/watch/123''"
  have e: "extractYouTubeId ?y = Some ''dQw4w9WgXcQ''"
    by code_simp
  have y: "\<not> isl (getYouTubeMetadata example_env ?y)"
    by (simp add: getYouTubeMetadata_def e example_env_def example_oembed_def truthy_def)
  have t: "\<not> isl (getTikTokMetadata example_env ?t)"
    by (simp add: example_tiktok_metadata)
  have f: "\<not> isl (getFacebookMetadata example_env ?f)"
    by (simp add: getFacebookMetadata_def example_env_def example_oembed_def truthy_def)
  have b: "tiktok_options example_bare_data = []"
    by (simp add: tiktok_options_def example_bare_data_def truthy_def)
  have p: "axios_post example_bare_env TIKTOK_API_URL ?t =
             Resolved \<lparr>tr_code = Some (Num 0), tr_msg = None, tr_data = Some example_bare_data\<rparr>"
    by (simp add: example_bare_env_def)
  have 1: "md_options (projr (getYouTubeMetadata example_env ?y)) \<noteq> []"
    using providers_options_nonempty[where env = example_env and url = ?y
        and md = "projr (getYouTubeMetadata example_env ?y)", THEN conjunct1] y
    by (simp add: isl_def)
  have 2: "md_options (projr (getTikTokMetadata example_env ?t)) \<noteq> []"
    using providers_options_nonempty[where env = example_env and url = ?t
        and md = "projr (getTikTokMetadata example_env ?t)", THEN conjunct2, THEN conjunct1] t
    by (simp add: isl_def)
  have 3: "md_options (projr (getFacebookMetadata example_env ?f)) \<noteq> []"
    using providers_options_nonempty[where env = example_env and url = ?f
        and md = "projr (getFacebookMetadata example_env ?f)", THEN conjunct2, THEN conjunct2,
        THEN conjunct1] f
    by (simp add: isl_def)
  have 4: "isl (getTikTokMetadata example_bare_env ?t)"
    using providers_options_nonempty[where env = example_bare_env and url = ?t,
        THEN conjunct2, THEN conjunct2, THEN conjunct2] p b
    by simp
  show ?thesis
    using y t f b 1 2 3 4 by simp
qed

subsection \<open>Metadata endpoint\<close>

text \<open>
  C6: when the provider fails, the metadata endpoint answers with the body
  \<open>{success: false, error: message}\<close> and the status read off the message: 404 if it
  contains \<open>not found\<close> or \<open>unavailable\<close>, otherwise 400 if it contains \<open>Invalid\<close> or
  \<open>Unsupported\<close>, otherwise 504 if it contains \<open>timeout\<close>, otherwise 500.
\<close>

theorem metadata_error_status:
  assumes "q_url req = Some (QString u)" and "isValidUrl (trim u)"
    and "extractPlatform (trim u) = Some platform"
    and "fetch_metadata env platform (trim u) = Inl m"
  shows "api_metadata env req =
           Json (if sublist ''not found'' m \<or> sublist ''unavailable'' m then 404
                 else if sublist ''Invalid'' m \<or> sublist ''Unsupported'' m then 400
                 else if sublist ''timeout'' m then 504
                 else 500)
             \<lparr>success = False, error = Some m, data = None\<rparr>"
proof -
  have "trim u \<noteq> []"
    using assms(2) by (rule isValidUrl_nonempty)
  then show ?thesis
    using assms
    by (simp add: api_metadata_def url_trim_def truthy_def metadata_catch_def failure_def
        str_includes_sublist)
qed

theorem metadata_error_status_witness:
  "q_url example_facebook_request = Some (QString ''https://www.facebook.com/watch/123'')
   \<and> isValidUrl (trim ''https://www.facebook.com/watch/123'')
   \<and> extractPlatform (trim ''https://www.facebook.com/watch/123'') = Some ''Facebook''
   \<and> fetch_metadata example_timeout_env ''Facebook'' (trim ''https://www.facebook.com/watch/123'')
       = Inl ''Facebook: Could not fetch video information. Reason: timeout of 8000ms exceeded''
   \<and> api_metadata example_timeout_env example_facebook_request =
       Json 504
         \<lparr>success = False,
          error = Some ''Facebook: Could not fetch video information. Reason: timeout of 8000ms exceeded'',
          data = None\<rparr>"
proof -
  let ?u = "''https://www.facebook.com/watch/123''"
  let ?m = "''Facebook: Could not fetch video information. Reason: timeout of 8000ms exceeded''"
  have 1: "q_url example_facebook_request = Some (QString ?u)"
    by (simp add: example_facebook_request_def)
  have 2: "isValidUrl (trim ?u)"
    by code_simp
  have 3: "extractPlatform (trim ?u) = Some ''Facebook''"
    by code_simp
  have 4: "fetch_metadata example_timeout_env ''Facebook'' (trim ?u) = Inl ?m"
    by (simp add: fetch_metadata_def getFacebookMetadata_def example_timeout_env_def
        example_env_def rejection_reason_def or_else_def)
  have s: "\<not> sublist ''not found'' ?m" "\<not> sublist ''unavailable'' ?m"
    "\<not> sublist ''Invalid'' ?m" "\<not> sublist ''Unsupported'' ?m" "sublist ''timeout'' ?m"
    by code_simp+
  have 5: "api_metadata example_timeout_env example_facebook_request =
       Json 504 \<lparr>success = False, error = Some ?m, data = None\<rparr>"
    using metadata_error_status[OF 1 2 3 4] s by simp
  show ?thesis
    using 1 2 3 4 5 by simp
qed

text \<open>
  C7, as the specification states it, fails: a payload with neither a \<open>play\<close> nor a
  \<open>wmplay\<close> link makes the provider fail, but not always with status 500. The provider
  tests the status code field of the answer first; when that is not zero the failure is
  the API error, whose default message contains \<open>not found\<close>, and the endpoint answers
  404.
\<close>

theorem tiktok_no_formats_counterexample:
  "axios_post example_refused_env TIKTOK_API_URL ''https://vm.tiktok.com/xyz''
     = Resolved \<lparr>tr_code = Some (Num (- 1)), tr_msg = None, tr_data = Some example_bare_data\<rparr>
   \<and> td_play example_bare_data = None \<and> td_wmplay example_bare_data = None
   \<and> getTikTokMetadata example_refused_env ''https://vm.tiktok.com/xyz''
       = Inl ''TikTok: TikTok API Error: Video not found or unavailable.''
   \<and> api_metadata example_refused_env example_request =
       Json 404
         \<lparr>success = False,
          error = Some ''TikTok: TikTok API Error: Video not found or unavailable.'',
          data = None\<rparr>"
proof -
  let ?u = "''https://vm.tiktok.com/xyz''"
  let ?m = "''TikTok: TikTok API Error: Video not found or unavailable.''"
  have 1: "axios_post example_refused_env TIKTOK_API_URL ?u
     = Resolved \<lparr>tr_code = Some (Num (- 1)), tr_msg = None, tr_data = Some example_bare_data\<rparr>"
    by (simp add: example_refused_env_def)
  have 2: "td_play example_bare_data = None" "td_wmplay example_bare_data = None"
    by (simp_all add: example_bare_data_def)
  have 3: "getTikTokMetadata example_refused_env ?u = Inl ?m"
    by (simp add: getTikTokMetadata_def 1 or_else_def)
  have 4: "url_trim (q_url example_request) = Inr (Some ?u)"
    by code_simp
  have 5: "isValidUrl ?u" "extractPlatform ?u = Some ''TikTok''"
    by code_simp+
  have 6: "metadata_catch ?m = Json 404 \<lparr>success = False, error = Some ?m, data = None\<rparr>"
    by code_simp
  have 7: "api_metadata example_refused_env example_request =
       Json 404 \<lparr>success = False, error = Some ?m, data = None\<rparr>"
    by (simp add: api_metadata_def 4 5 truthy_def fetch_metadata_def 3 6)
  show ?thesis
    using 1 2 3 7 by simp
qed

text \<open>
  C7, amended: when the payload of the resolver's answer has neither a \<open>play\<close> nor a
  \<open>wmplay\<close> link, the TikTok provider fails; when moreover the status code field of
  the answer is zero, the failure is \<open>No video formats available for this TikTok.\<close>,
  its message matches none of the 404, 400 and 504 heuristics, and the metadata
  endpoint answers 500.
\<close>

theorem tiktok_no_formats_status:
  assumes "axios_post env TIKTOK_API_URL url = Resolved r" and "tr_data r = Some d"
    and "\<not> truthy (td_play d)" and "\<not> truthy (td_wmplay d)"
  shows "isl (getTikTokMetadata env url)
     \<and> (tr_code r = Some (Num 0) \<longrightarrow>
          getTikTokMetadata env url = Inl ''TikTok: No video formats available for this TikTok.''
          \<and> (\<forall>req u. q_url req = Some (QString u) \<and> trim u = url \<and> isValidUrl url
                      \<and> extractPlatform url = Some ''TikTok''
               \<longrightarrow> api_metadata env req =
                     Json 500
                       \<lparr>success = False,
                        error = Some ''TikTok: No video formats available for this TikTok.'',
                        data = None\<rparr>))"
proof -
  let ?m = "''TikTok: No video formats available for this TikTok.''"
  have o: "tiktok_options d = []"
    using assms(3,4) by (rule tiktok_options_empty)
  have 1: "isl (getTikTokMetadata env url)"
    using assms(1,2) o by (simp add: getTikTokMetadata_def)
  have 2: "getTikTokMetadata env url = Inl ?m" if "tr_code r = Some (Num 0)"
    using assms(1,2) o that by (simp add: getTikTokMetadata_def)
  have c: "metadata_catch ?m = Json 500 \<lparr>success = False, error = Some ?m, data = None\<rparr>"
    by code_simp
  have 3: "api_metadata env req = Json 500 \<lparr>success = False, error = Some ?m, data = None\<rparr>"
    if "tr_code r = Some (Num 0)" "q_url req = Some (QString u)" "trim u = url" "isValidUrl url"
      "extractPlatform url = Some ''TikTok''" for req u
  proof -
    have "url \<noteq> []"
      using that(4) by (rule isValidUrl_nonempty)
    then show ?thesis
      using that 2[OF that(1)] c
      by (simp add: api_metadata_def url_trim_def truthy_def fetch_metadata_def)
  qed
  show ?thesis
    using 1 2 3 by blast
qed

theorem tiktok_no_formats_status_witness:
  "axios_post example_bare_env TIKTOK_API_URL ''https://vm.tiktok.com/xyz''
     = Resolved \<lparr>tr_code = Some (Num 0), tr_msg = None, tr_data = Some example_bare_data\<rparr>
   \<and> \<not> truthy (td_play example_bare_data) \<and> \<not> truthy (td_wmplay example_bare_data)
   \<and> isValidUrl ''https://vm.tiktok.com/xyz''
   \<and> extractPlatform ''https://vm.tiktok.com/xyz'' = Some ''TikTok''
   \<and> getTikTokMetadata example_bare_env ''https://vm.tiktok.com/xyz''
       = Inl ''TikTok: No video formats available for this TikTok.''
   \<and> api_metadata example_bare_env example_request =
       Json 500
         \<lparr>success = False,
          error = Some ''TikTok: No video formats available for this TikTok.'',
          data = None\<rparr>"
proof -
  let ?u = "''https://vm.tiktok.com/xyz''"
  let ?r = "\<lparr>tr_code = Some (Num 0), tr_msg = None, tr_data = Some example_bare_data\<rparr>"
  have 1: "axios_post example_bare_env TIKTOK_API_URL ?u = Resolved ?r"
    by (simp add: example_bare_env_def)
  have 2: "tr_data ?r = Some example_bare_data"
    by simp
  have 3: "\<not> truthy (td_play example_bare_data)"
    by (simp add: example_bare_data_def truthy_def)
  have 4: "\<not> truthy (td_wmplay example_bare_data)"
    by (simp add: example_bare_data_def truthy_def)
  have 5: "tr_code ?r = Some (Num 0)"
    by simp
  have 6: "q_url example_request = Some (QString ?u)"
    by (simp add: example_request_def)
  have 7: "trim ?u = ?u"
    by code_simp
  have 8: "isValidUrl ?u"
    by code_simp
  have 9: "extractPlatform ?u = Some ''TikTok''"
    by code_simp
  note T = tiktok_no_formats_status[OF 1 2 3 4, THEN conjunct2, rule_format, OF 5]
  have a: "getTikTokMetadata example_bare_env ?u
             = Inl ''TikTok: No video formats available for this TikTok.''"
    using T by (rule conjunct1)
  have b: "api_metadata example_bare_env example_request =
       Json 500
         \<lparr>success = False,
          error = Some ''TikTok: No video formats available for this TikTok.'',
          data = None\<rparr>"
    using T[THEN conjunct2, rule_format, of example_request ?u] 6 7 8 9 by blast
  show ?thesis
    using 1 3 4 8 9 a b by simp
qed

subsection \<open>Download endpoint\<close>

text \<open>
  The selection in the TikTok branch is the fallback chain: the option whose id is the
  requested format, else the option with id \<open>nowm\<close>, else the first option.
\<close>

lemma select_option_chain: "select_option options format = fallback_chain options format"
  by (cases options) (simp_all add: select_option_def fallback_chain_def find_first_filter)

text \<open>
  On the metadata the provider returns, the chain always selects an option, and that
  option carries a link: the handler's own test \<open>!selectedOption || !selectedOption.url\<close>,
  whose error its \<open>catch\<close> maps to 404, never fires.
\<close>

lemma find_first_in_set: "find_first p xs = Some x \<Longrightarrow> x \<in> set xs"
  by (induction xs) (auto split: if_splits)

lemma select_option_in_set:
  assumes "options \<noteq> []"
  shows "\<exists>opt \<in> set options. select_option options format = Some opt"
proof (cases "find_first (\<lambda>opt. Some (QString (opt_id opt)) = format) options")
  case (Some opt)
  then show ?thesis
    using find_first_in_set[OF Some] by (auto simp: select_option_def)
next
  case None
  show ?thesis
  proof (cases "find_first (\<lambda>opt. opt_id opt = ''nowm'') options")
    case (Some opt)
    then show ?thesis
      using None find_first_in_set[OF Some] by (auto simp: select_option_def)
  next
    case n: None
    then show ?thesis
      using None assms by (cases options) (auto simp: select_option_def)
  qed
qed

lemma selected_option_has_url:
  assumes "getTikTokMetadata env url = Inr md"
  shows "\<exists>opt. select_option (md_options md) format = Some opt \<and> truthy (opt_url opt)"
  using select_option_in_set[OF getTikTokMetadata_options[OF assms], of format]
    getTikTokMetadata_urls[OF assms]
  by blast

text \<open>
  C5: the claim asks for 404 where no option carries a resolvable link. For a TikTok
  download request that passes the key check, when the resolver's answer (status code
  zero) holds neither link, the endpoint answers 500: the provider fails first, and its
  message \<open>No video formats available for this TikTok.\<close> is not the one the handler's
  \<open>catch\<close> maps to 404.
\<close>

theorem download_no_link_status:
  assumes "API_KEY env = [] \<or> q_key req = Some (QString (API_KEY env))"
    and "q_url req = Some (QString u)" and "isValidUrl (trim u)"
    and "extractPlatform (trim u) = Some ''TikTok''"
    and "axios_post env TIKTOK_API_URL (trim u) = Resolved r"
    and "tr_code r = Some (Num 0)" and "tr_data r = Some d"
    and "\<not> truthy (td_play d)" and "\<not> truthy (td_wmplay d)"
  shows "api_download env req =
           Json 500
             \<lparr>success = False,
              error = Some ''Download failed: TikTok: No video formats available for this TikTok.'',
              data = None\<rparr>"
proof -
  let ?m = "''TikTok: No video formats available for this TikTok.''"
  have o: "tiktok_options d = []"
    using assms(8,9) by (rule tiktok_options_empty)
  have p: "getTikTokMetadata env (trim u) = Inl ?m"
    using assms(5,6,7) o by (simp add: getTikTokMetadata_def)
  have c: "download_catch ?m =
             Json 500 \<lparr>success = False, error = Some (''Download failed: '' @ ?m), data = None\<rparr>"
    by code_simp
  have n: "trim u \<noteq> []"
    using assms(3) by (rule isValidUrl_nonempty)
  show ?thesis
    using assms(1,2,3,4) n p c
    by (auto simp: api_download_def url_trim_def truthy_def Let_def)
qed

theorem download_no_link_status_witness:
  "q_key example_request = Some (QString (API_KEY example_bare_env))
   \<and> isValidUrl (trim ''https://vm.tiktok.com/xyz'')
   \<and> extractPlatform (trim ''https://vm.tiktok.com/xyz'') = Some ''TikTok''
   \<and> \<not> truthy (td_play example_bare_data) \<and> \<not> truthy (td_wmplay example_bare_data)
   \<and> api_download example_bare_env example_request =
       Json 500
         \<lparr>success = False,
          error = Some ''Download failed: TikTok: No video formats available for this TikTok.'',
          data = None\<rparr>"
proof -
  let ?u = "''https://vm.tiktok.com/xyz''"
  let ?r = "\<lparr>tr_code = Some (Num 0), tr_msg = None, tr_data = Some example_bare_data\<rparr>"
  have 1: "q_key example_request = Some (QString (API_KEY example_bare_env))"
    by (simp add: example_request_def example_bare_env_def example_env_def)
  have 2: "q_url example_request = Some (QString ?u)"
    by (simp add: example_request_def)
  have 3: "isValidUrl (trim ?u)"
    by code_simp
  have 4: "extractPlatform (trim ?u) = Some ''TikTok''"
    by code_simp
  have 5: "axios_post example_bare_env TIKTOK_API_URL (trim ?u) = Resolved ?r"
    by (simp add: example_bare_env_def)
  have 6: "tr_code ?r = Some (Num 0)" "tr_data ?r = Some example_bare_data"
    by simp_all
  have 7: "\<not> truthy (td_play example_bare_data)" "\<not> truthy (td_wmplay example_bare_data)"
    by (simp_all add: example_bare_data_def truthy_def)
  show ?thesis
    using 1 3 4 7 download_no_link_status[OF disjI2[OF 1] 2 3 4 5 6 7] by simp
qed

text \<open>
  With a string or absent \<open>url\<close> parameter the key check comes before every
  validation.
\<close>

lemma api_download_key_first:
  assumes "API_KEY env \<noteq> []" and "q_key req \<noteq> Some (QString (API_KEY env))"
    and "q_url req = None \<or> (\<exists>u. q_url req = Some (QString u))"
  shows "api_download env req =
           Json 401 \<lparr>success = False, error = Some ''Invalid API key.'', data = None\<rparr>"
  using assms by (auto simp: api_download_def url_trim_def failure_def)

text \<open>
  C10: the claim asks for 401 on every request with a wrong key. When the \<open>url\<close>
  parameter is an array or an object (the parameter given twice, or written with
  brackets), the handler's first statement \<open>req.query.url?.trim()\<close> throws before the
  key is compared, and the endpoint answers 500 whatever the key.
\<close>

theorem api_download_url_not_string:
  assumes "q_url req = Some v" and "\<forall>s. v \<noteq> QString s"
  shows "api_download env req =
           Json 500
             \<lparr>success = False,
              error = Some ''Download failed: req.query.url?.trim is not a function'',
              data = None\<rparr>"
proof -
  have t: "url_trim (q_url req) = Inl ''req.query.url?.trim is not a function''"
    using assms by (cases v) (simp_all add: url_trim_def)
  have c: "download_catch ''req.query.url?.trim is not a function'' =
             Json 500
               \<lparr>success = False,
                error = Some ''Download failed: req.query.url?.trim is not a function'',
                data = None\<rparr>"
    by code_simp
  show ?thesis
    by (simp add: api_download_def t c)
qed

theorem api_download_url_not_string_witness:
  "API_KEY example_env \<noteq> []
   \<and> q_key example_repeated_url_request \<noteq> Some (QString (API_KEY example_env))
   \<and> q_url example_repeated_url_request = Some (QArray [QString ''a'', QString ''b''])
   \<and> api_download example_env example_repeated_url_request =
       Json 500
         \<lparr>success = False,
          error = Some ''Download failed: req.query.url?.trim is not a function'',
          data = None\<rparr>"
proof -
  have 1: "API_KEY example_env \<noteq> []"
    by (simp add: example_env_def)
  have 2: "q_key example_repeated_url_request \<noteq> Some (QString (API_KEY example_env))"
    by (simp add: example_env_def example_repeated_url_request_def)
  have 3: "q_url example_repeated_url_request = Some (QArray [QString ''a'', QString ''b''])"
    by (simp add: example_repeated_url_request_def)
  have 4: "\<forall>s. QArray [QString ''a'', QString ''b''] \<noteq> QString s"
    by simp
  show ?thesis
    using 1 2 3 api_download_url_not_string[OF 3 4] by simp
qed

end
